theory Spec2Isabelle
  imports Complex_Main
begin

section \<open>Data model (physics/types.ts, physics/field.ts)\<close>

text \<open>
  JavaScript numbers are modelled as exact reals; the field kernel is given a
  second time over numbers with the range of doubles. A position
  \<^verbatim>\<open>[number, number, number]\<close> is a triple, the \<^verbatim>\<open>Vector3\<close> interface a record.
  The field \<^verbatim>\<open>kind\<close> of a source has the single value \<^verbatim>\<open>"source"\<close> and is left out.
\<close>

type_synonym position = "real \<times> real \<times> real"

datatype FieldMode = Electric | Gravity

record FieldSource =
  source_id :: string
  source_position :: position
  source_value :: real

record Vector3 =
  vx :: real
  vy :: real
  vz :: real

section \<open>Constants (physics/constants.ts, physics/units.ts)\<close>

definition COULOMB_CONSTANT :: real where
  "COULOMB_CONSTANT = 899 * 10 ^ 7"

definition GRAVITATIONAL_CONSTANT :: real where
  "GRAVITATIONAL_CONSTANT = 6674 / 10 ^ 14"

definition MIN_DISTANCE :: real where
  "MIN_DISTANCE = 1 / 10"

definition METERS_PER_SCENE_UNIT :: real where
  "METERS_PER_SCENE_UNIT = 1 / 10"

fun sceneToMeters :: "position \<Rightarrow> position" where
  "sceneToMeters (px, py, pz) =
     (px * METERS_PER_SCENE_UNIT, py * METERS_PER_SCENE_UNIT, pz * METERS_PER_SCENE_UNIT)"

section \<open>Field kernel (physics/field.ts)\<close>

fun distance :: "position \<Rightarrow> position \<Rightarrow> real" where
  "distance (x1, y1, z1) (x2, y2, z2) =
     (let dx = x2 - x1; dy = y2 - y1; dz = z2 - z1
      in sqrt (dx * dx + dy * dy + dz * dz))"

fun unitVector :: "position \<Rightarrow> position \<Rightarrow> position" where
  "unitVector (fx, fy, fz) (tx, ty, tz) =
     (let dx = tx - fx; dy = ty - fy; dz = tz - fz;
          r = max (distance (fx, fy, fz) (tx, ty, tz)) MIN_DISTANCE
      in (dx / r, dy / r, dz / r))"

text \<open>The clamped distance \<^verbatim>\<open>rMeters\<close> that every per-source loop body computes.\<close>

definition rMeters :: "position \<Rightarrow> position \<Rightarrow> real" where
  "rMeters pointMeters sourceMeters =
     max (distance pointMeters sourceMeters) (MIN_DISTANCE * METERS_PER_SCENE_UNIT)"

text \<open>
  One iteration of the loop of \<^verbatim>\<open>computeElectricFieldAtPoint\<close>: the accumulators
  \<^verbatim>\<open>Ex, Ey, Ez\<close> (here \<open>E_x, E_y, E_z\<close>) go in and come out updated.
\<close>

definition electricStep :: "position \<Rightarrow> position \<Rightarrow> FieldSource \<Rightarrow> position" where
  "electricStep pointMeters acc source =
     (case acc of (E_x, E_y, E_z) \<Rightarrow>
        let sourceMeters = sceneToMeters (source_position source);
            r = rMeters pointMeters sourceMeters;
            rSquaredMeters = r * r;
            magnitude = (COULOMB_CONSTANT * source_value source) / rSquaredMeters
        in (case unitVector sourceMeters pointMeters of (ux, uy, uz) \<Rightarrow>
              (E_x + magnitude * ux, E_y + magnitude * uy, E_z + magnitude * uz)))"

definition computeElectricFieldAtPoint :: "position \<Rightarrow> FieldSource list \<Rightarrow> Vector3" where
  "computeElectricFieldAtPoint point sources =
     (let pointMeters = sceneToMeters point
      in (case foldl (electricStep pointMeters) (0, 0, 0) sources of
            (E_x, E_y, E_z) \<Rightarrow> \<lparr>vx = E_x, vy = E_y, vz = E_z\<rparr>))"

definition gravitationalStep :: "position \<Rightarrow> position \<Rightarrow> FieldSource \<Rightarrow> position" where
  "gravitationalStep pointMeters acc source =
     (case acc of (G_x, G_y, G_z) \<Rightarrow>
        let sourceMeters = sceneToMeters (source_position source);
            r = rMeters pointMeters sourceMeters;
            rSquaredMeters = r * r;
            magnitude = (GRAVITATIONAL_CONSTANT * source_value source) / rSquaredMeters
        in (case unitVector pointMeters sourceMeters of (ux, uy, uz) \<Rightarrow>
              (G_x + magnitude * ux, G_y + magnitude * uy, G_z + magnitude * uz)))"

definition computeGravitationalFieldAtPoint :: "position \<Rightarrow> FieldSource list \<Rightarrow> Vector3" where
  "computeGravitationalFieldAtPoint point sources =
     (let pointMeters = sceneToMeters point
      in (case foldl (gravitationalStep pointMeters) (0, 0, 0) sources of
            (G_x, G_y, G_z) \<Rightarrow> \<lparr>vx = G_x, vy = G_y, vz = G_z\<rparr>))"

text \<open>Component-wise sum of two field vectors, the \<open>+\<close> of the superposition property.\<close>

definition vadd :: "Vector3 \<Rightarrow> Vector3 \<Rightarrow> Vector3" where
  "vadd a b = \<lparr>vx = vx a + vx b, vy = vy a + vy b, vz = vz a + vz b\<rparr>"

text \<open>The expression \<^verbatim>\<open>Math.sqrt(field.x ** 2 + field.y ** 2 + field.z ** 2)\<close>.\<close>

definition fieldMagnitude :: "Vector3 \<Rightarrow> real" where
  "fieldMagnitude field = sqrt ((vx field)\<^sup>2 + (vy field)\<^sup>2 + (vz field)\<^sup>2)"

text \<open>
  The value of the variable \<^verbatim>\<open>magnitude\<close> in the loop bodies of the two field
  functions, for a query point and a source given in scene units.
\<close>

definition electricMagnitude :: "position \<Rightarrow> FieldSource \<Rightarrow> real" where
  "electricMagnitude point source =
     (let r = rMeters (sceneToMeters point) (sceneToMeters (source_position source));
          rSquaredMeters = r * r
      in (COULOMB_CONSTANT * source_value source) / rSquaredMeters)"

definition gravitationalMagnitude :: "position \<Rightarrow> FieldSource \<Rightarrow> real" where
  "gravitationalMagnitude point source =
     (let r = rMeters (sceneToMeters point) (sceneToMeters (source_position source));
          rSquaredMeters = r * r
      in (GRAVITATIONAL_CONSTANT * source_value source) / rSquaredMeters)"






section \<open>Equilibrium point (physics/field.ts)\<close>

definition MAX_ITERATIONS :: nat where
  "MAX_ITERATIONS = 10"

definition TOLERANCE :: real where
  "TOLERANCE = 1 / 10 ^ 15"

text \<open>
  The first part of \<^verbatim>\<open>findEquilibriumPoint\<close>, for the two sources \<^verbatim>\<open>q1\<close> and \<^verbatim>\<open>q2\<close>:
  the closed form \<^verbatim>\<open>eqMeters\<close>, or \<open>None\<close> where the function returns \<^verbatim>\<open>null\<close>.
  \<^verbatim>\<open>Math.sign\<close> is \<open>sgn\<close>.
\<close>

definition closedFormEquilibrium :: "FieldSource \<Rightarrow> FieldSource \<Rightarrow> position option" where
  "closedFormEquilibrium q1 q2 =
     (let p1 = source_position q1;
          p2 = source_position q2;
          p1Meters = sceneToMeters p1;
          p2Meters = sceneToMeters p2;
          d = distance p1Meters p2Meters
      in if d < MIN_DISTANCE * METERS_PER_SCENE_UNIT then None
         else
           let q1Mag = \<bar>source_value q1\<bar>;
               q2Mag = \<bar>source_value q2\<bar>;
               q1Sign = sgn (source_value q1);
               q2Sign = sgn (source_value q2);
               areLikeCharges = (q1Sign * q2Sign > 0)
           in (case unitVector p1Meters p2Meters of (ux, uy, uz) \<Rightarrow>
               (case p1Meters of (p1x, p1y, p1z) \<Rightarrow>
               (case p2Meters of (p2x, p2y, p2z) \<Rightarrow>
                 if areLikeCharges then
                   let sqrtQ1 = sqrt q1Mag;
                       sqrtQ2 = sqrt q2Mag;
                       denominator = sqrtQ1 + sqrtQ2
                   in if denominator = 0 then None
                      else
                        let r1 = (sqrtQ1 / denominator) * d
                        in Some (p1x + ux * r1, p1y + uy * r1, p1z + uz * r1)
                 else
                   let weakerIsQ1 = (q1Mag < q2Mag);
                       weakMag = (if weakerIsQ1 then q1Mag else q2Mag);
                       strongMag = (if weakerIsQ1 then q2Mag else q1Mag);
                       sqrtWeak = sqrt weakMag;
                       sqrtStrong = sqrt strongMag;
                       denominator = sqrtStrong - sqrtWeak
                   in if denominator \<le> 0 then None
                      else
                        let x = (sqrtWeak * d) / denominator
                        in if weakerIsQ1
                           then Some (p1x - ux * x, p1y - uy * x, p1z - uz * x)
                           else Some (p2x + ux * x, p2y + uy * x, p2z + uz * x)))))"

text \<open>
  The refinement loop, with the number of iterations it has left. Each \<^verbatim>\<open>break\<close>
  returns the current \<^verbatim>\<open>equilibriumScene\<close>.
\<close>

fun refineLoop :: "nat \<Rightarrow> position \<Rightarrow> FieldSource list \<Rightarrow> position" where
  "refineLoop 0 equilibriumScene sources = equilibriumScene"
| "refineLoop (Suc n) equilibriumScene sources =
     (let field = computeElectricFieldAtPoint equilibriumScene sources;
          fieldMag = fieldMagnitude field
      in if fieldMag < TOLERANCE then equilibriumScene
         else if fieldMag < 1 / 10 ^ 20 then equilibriumScene
         else
           let stepSize = fieldMag * (1 / 10 ^ 6);
               stepDirection = (- vx field / fieldMag, - vy field / fieldMag, - vz field / fieldMag)
           in (case stepDirection of (sx, sy, sz) \<Rightarrow>
               (case equilibriumScene of (ex, ey, ez) \<Rightarrow>
                  refineLoop n
                    (ex + sx * stepSize / METERS_PER_SCENE_UNIT,
                     ey + sy * stepSize / METERS_PER_SCENE_UNIT,
                     ez + sz * stepSize / METERS_PER_SCENE_UNIT)
                    sources)))"

definition findEquilibriumPoint :: "FieldSource list \<Rightarrow> FieldMode \<Rightarrow> position option" where
  "findEquilibriumPoint sources mode =
     (if length sources \<noteq> 2 \<or> mode \<noteq> Electric then None
      else
        (case sources of
           [q1, q2] \<Rightarrow>
             (case closedFormEquilibrium q1 q2 of
                None \<Rightarrow> None
              | Some (mx, my, mz) \<Rightarrow>
                  Some (refineLoop MAX_ITERATIONS
                          (mx / METERS_PER_SCENE_UNIT, my / METERS_PER_SCENE_UNIT,
                           mz / METERS_PER_SCENE_UNIT)
                          sources))
         | _ \<Rightarrow> None))"

section \<open>Field line tracing (components/FieldFlow.tsx)\<close>

text \<open>
  \<^verbatim>\<open>FieldFlow.tsx\<close> declares its own \<^verbatim>\<open>distance\<close>, with the same body as the one
  of \<^verbatim>\<open>field.ts\<close>; both are the function \<open>distance\<close> above.
\<close>

definition SEED_SPHERE_RADIUS :: real where
  "SEED_SPHERE_RADIUS = 6"

definition MAX_STEPS_PER_DIRECTION :: nat where
  "MAX_STEPS_PER_DIRECTION = 600"

definition STEP_SIZE :: real where
  "STEP_SIZE = 5 / 100"

definition MIN_FIELD_MAGNITUDE :: real where
  "MIN_FIELD_MAGNITUDE = 1 / 10 ^ 15"

definition MIN_DISTANCE_FROM_SOURCE :: real where
  "MIN_DISTANCE_FROM_SOURCE = 15 / 100"

definition TRACE_BOUNDS :: real where
  "TRACE_BOUNDS = 20"

definition normalize :: "Vector3 \<Rightarrow> Vector3" where
  "normalize v =
     (let mag = sqrt (vx v * vx v + vy v * vy v + vz v * vz v)
      in if mag < 1 / 10 ^ 10 then \<lparr>vx = 0, vy = 0, vz = 0\<rparr>
         else \<lparr>vx = vx v / mag, vy = vy v / mag, vz = vz v / mag\<rparr>)"

fun isOutsideBounds :: "position \<Rightarrow> bool" where
  "isOutsideBounds (px, py, pz) =
     (\<bar>px\<bar> > TRACE_BOUNDS \<or> \<bar>py\<bar> > TRACE_BOUNDS \<or> \<bar>pz\<bar> > TRACE_BOUNDS)"

fun isTooCloseToSource :: "position \<Rightarrow> FieldSource list \<Rightarrow> bool" where
  "isTooCloseToSource pos [] = False"
| "isTooCloseToSource pos (source # rest) =
     (let dist = distance pos (source_position source)
      in if dist < MIN_DISTANCE_FROM_SOURCE then True else isTooCloseToSource pos rest)"

text \<open>
  The loop of \<^verbatim>\<open>traceInDirection\<close>. The first argument is the number of iterations
  the \<^verbatim>\<open>for\<close> loop has left; the result is the list of the points pushed from the
  current iteration on, in the order they are pushed. Each \<^verbatim>\<open>break\<close> ends the list.
  The parameter \<open>direction\<close> is the sign \<^verbatim>\<open>1 | -1\<close>.
\<close>

fun traceLoop :: "nat \<Rightarrow> position \<Rightarrow> FieldSource list \<Rightarrow> FieldMode \<Rightarrow> real \<Rightarrow> position list" where
  "traceLoop 0 pos sources mode direction = []"
| "traceLoop (Suc n) pos sources mode direction =
     (if isOutsideBounds pos then []
      else if isTooCloseToSource pos sources then []
      else
        let field = (if mode = Electric then computeElectricFieldAtPoint pos sources
                     else computeGravitationalFieldAtPoint pos sources);
            fieldMag = fieldMagnitude field
        in if fieldMag < MIN_FIELD_MAGNITUDE then []
           else
             let dir = normalize field
             in if vx dir = 0 \<and> vy dir = 0 \<and> vz dir = 0 then [pos]
                else (case pos of (px, py, pz) \<Rightarrow>
                        pos # traceLoop n
                          (px + vx dir * STEP_SIZE * direction,
                           py + vy dir * STEP_SIZE * direction,
                           pz + vz dir * STEP_SIZE * direction)
                          sources mode direction))"

definition traceInDirection :: "position \<Rightarrow> FieldSource list \<Rightarrow> FieldMode \<Rightarrow> real \<Rightarrow> position list" where
  "traceInDirection startPos sources mode direction =
     traceLoop MAX_STEPS_PER_DIRECTION startPos sources mode direction"

definition traceFieldLine :: "position \<Rightarrow> FieldSource list \<Rightarrow> FieldMode \<Rightarrow> position list" where
  "traceFieldLine seed sources mode =
     (if isTooCloseToSource seed sources then []
      else
        let pointsForward = traceInDirection seed sources mode 1;
            pointsBackward = traceInDirection seed sources mode (- 1)
        in rev pointsBackward @ [seed] @ pointsForward)"

text \<open>
  The body of the \<^verbatim>\<open>fieldLines\<close> memo of the \<^verbatim>\<open>FieldFlow\<close> component: the loop over
  the seeds keeps a traced line only when it has at least 20 points. The seeds are
  the list \<^verbatim>\<open>generateSphereShellSeeds(sources, density)\<close>, taken here as a parameter;
  the random \<^verbatim>\<open>phaseOffset\<close> stored with each kept line is used for rendering only and
  is left out.
\<close>

fun keepLines :: "position list \<Rightarrow> FieldSource list \<Rightarrow> FieldMode \<Rightarrow> position list list" where
  "keepLines [] sources mode = []"
| "keepLines (seed # seeds) sources mode =
     (let points = traceFieldLine seed sources mode
      in if length points \<ge> 20 then points # keepLines seeds sources mode
         else keepLines seeds sources mode)"

definition fieldLines :: "bool \<Rightarrow> FieldSource list \<Rightarrow> FieldMode \<Rightarrow> position list \<Rightarrow> position list list" where
  "fieldLines enabled sources mode seeds =
     (if \<not> enabled \<or> length sources = 0 then [] else keepLines seeds sources mode)"

section \<open>Seed generation (components/FieldFlow.tsx)\<close>

definition goldenAngle :: real where
  "goldenAngle = pi * (3 - sqrt 5)"

text \<open>
  The seed computed in iteration \<open>i\<close> of \<^verbatim>\<open>generateSphereShellSeeds\<close>. The seed count
  is a natural number. \<open>None\<close> stands for a seed with a coordinate that is not a
  finite number: in exact arithmetic this happens when \<^verbatim>\<open>i / (numSeeds - 1)\<close> divides
  by zero, or when \<^verbatim>\<open>Math.sqrt\<close> is applied to a negative number.
\<close>

definition seedPoint :: "nat \<Rightarrow> nat \<Rightarrow> position option" where
  "seedPoint numSeeds i =
     (if real numSeeds - 1 = 0 then None
      else
        let y = 1 - (real i / (real numSeeds - 1)) * 2
        in if 1 - y * y < 0 then None
           else
             let radius = sqrt (1 - y * y);
                 theta = goldenAngle * real i;
                 x = cos theta * radius;
                 z = sin theta * radius
             in Some (x * SEED_SPHERE_RADIUS, y * SEED_SPHERE_RADIUS, z * SEED_SPHERE_RADIUS))"

text \<open>
  The body of the loop over \<open>i\<close>: the list of the seeds pushed in this iteration
  (none or one). The inner loop over the sources that sets \<^verbatim>\<open>tooClose\<close> has the
  body of \<open>isTooCloseToSource\<close>. For a seed that is not a number every comparison
  \<^verbatim>\<open>dist < MIN_DISTANCE_FROM_SOURCE\<close> is false, so the seed is pushed.
\<close>

definition seedsOfIteration :: "FieldSource list \<Rightarrow> nat \<Rightarrow> nat \<Rightarrow> position option list" where
  "seedsOfIteration sources numSeeds i =
     (case seedPoint numSeeds i of
        None \<Rightarrow> [None]
      | Some seed \<Rightarrow> if isTooCloseToSource seed sources then [] else [Some seed])"

definition generateSphereShellSeeds :: "FieldSource list \<Rightarrow> nat \<Rightarrow> position option list" where
  "generateSphereShellSeeds sources numSeeds =
     concat (map (seedsOfIteration sources numSeeds) [0..<numSeeds])"

section \<open>Lattice sampling (components/FieldVectors.tsx)\<close>

text \<open>\<^verbatim>\<open>GRID_STEP = { x: 2, y: 2, z: 2 }\<close>: the same stride on the three axes.\<close>

definition GRID_STEP :: real where
  "GRID_STEP = 2"

definition MAX_ARROWS :: nat where
  "MAX_ARROWS = 500"

definition MIN_FIELD_THRESHOLD :: real where
  "MIN_FIELD_THRESHOLD = 1 / 10 ^ 10"

text \<open>The constant \<^verbatim>\<open>MIN_DISTANCE_FROM_SOURCE\<close> of \<^verbatim>\<open>FieldVectors.tsx\<close>.\<close>

definition MIN_DISTANCE_FROM_SOURCE_arrows :: real where
  "MIN_DISTANCE_FROM_SOURCE_arrows = 8 / 10"

text \<open>
  One loop \<^verbatim>\<open>for (let v = -gridSize; v <= gridSize; v += GRID_STEP)\<close>, from the
  current value of the loop variable: the values the body is run at.
\<close>

function gridAxis :: "real \<Rightarrow> real \<Rightarrow> real list" where
  "gridAxis v gridSize = (if v \<le> gridSize then v # gridAxis (v + GRID_STEP) gridSize else [])"
  by pat_completeness auto
termination
proof (relation "measure (\<lambda>(v, gridSize). nat \<lceil>gridSize - v + 2\<rceil>)")
  show "wf (measure (\<lambda>(v :: real, gridSize :: real). nat \<lceil>gridSize - v + 2\<rceil>))"
    by simp
next
  fix v gridSize :: real
  assume le: "v \<le> gridSize"
  define c where "c = \<lceil>gridSize - v\<rceil>"
  have c0: "0 \<le> c"
    using le by (simp add: c_def)
  have eq: "gridSize - (v + GRID_STEP) + 2 = gridSize - v"
    by (simp add: GRID_STEP_def)
  have new: "\<lceil>gridSize - (v + GRID_STEP) + 2\<rceil> = c"
    unfolding eq c_def ..
  have old: "\<lceil>gridSize - v + 2\<rceil> = c + 2"
    by (simp add: c_def)
  have "nat c < nat (c + 2)"
    using c0 by linarith
  then show "((v + GRID_STEP, gridSize), (v, gridSize))
      \<in> measure (\<lambda>(v, gridSize). nat \<lceil>gridSize - v + 2\<rceil>)"
    by (simp only: in_measure prod.case new old)
qed

declare gridAxis.simps [simp del]

text \<open>\<^verbatim>\<open>points.filter((_, index) => index % skipFactor === 0)\<close>.\<close>

definition filterByIndex :: "nat \<Rightarrow> 'a list \<Rightarrow> 'a list" where
  "filterByIndex skipFactor points =
     map snd (filter (\<lambda>(index, _). index mod skipFactor = 0) (enumerate 0 points))"

definition latticePoints :: "real \<Rightarrow> position list" where
  "latticePoints gridSize =
     concat (map (\<lambda>x.
       concat (map (\<lambda>y.
         map (\<lambda>z. (x, y, z)) (gridAxis (- gridSize) gridSize))
       (gridAxis (- gridSize) gridSize)))
     (gridAxis (- gridSize) gridSize))"

definition generateGridPoints :: "real \<Rightarrow> position list" where
  "generateGridPoints gridSize =
     (let points = latticePoints gridSize
      in if length points > MAX_ARROWS
         then
           let skipFactor = nat \<lceil>real (length points) / real MAX_ARROWS\<rceil>
           in filterByIndex skipFactor points
         else points)"

section \<open>Sampling and normalisation (components/FieldVectors.tsx)\<close>

record ArrowData =
  arrow_position :: position
  arrow_field :: Vector3
  arrow_magnitude :: real

record FieldData =
  arrowData :: "ArrowData list"
  maxMagnitude :: real
  minMagnitude :: real

text \<open>
  The inner loop of the first pass, which sets \<^verbatim>\<open>tooClose\<close> and leaves at the first
  source closer than \<^verbatim>\<open>MIN_DISTANCE_FROM_SOURCE\<close>.
\<close>

fun tooCloseToSource :: "position \<Rightarrow> FieldSource list \<Rightarrow> bool" where
  "tooCloseToSource point [] = False"
| "tooCloseToSource point (source # rest) =
     (let dist = distance point (source_position source)
      in if dist < MIN_DISTANCE_FROM_SOURCE_arrows then True else tooCloseToSource point rest)"

text \<open>
  One iteration of the first pass over the grid points. The state is
  \<^verbatim>\<open>arrowDataArray\<close>, \<^verbatim>\<open>maxMagnitude\<close> and \<^verbatim>\<open>minMagnitude\<close>; the value \<^verbatim>\<open>Infinity\<close>
  that \<^verbatim>\<open>minMagnitude\<close> starts with is \<open>None\<close>, and every number is below it.
\<close>

definition sampleStep ::
  "FieldSource list \<Rightarrow> FieldMode \<Rightarrow> ArrowData list \<times> real \<times> real option \<Rightarrow> position
     \<Rightarrow> ArrowData list \<times> real \<times> real option" where
  "sampleStep sources mode state point =
     (case state of (arrowDataArray, maxMag, minMag) \<Rightarrow>
        if tooCloseToSource point sources then state
        else
          let field = (if mode = Electric then computeElectricFieldAtPoint point sources
                       else computeGravitationalFieldAtPoint point sources);
              magnitude = fieldMagnitude field;
              maxMag' = (if magnitude > maxMag then magnitude else maxMag);
              minMag' = (if (case minMag of None \<Rightarrow> True | Some m \<Rightarrow> magnitude < m)
                            \<and> magnitude > MIN_FIELD_THRESHOLD
                         then Some magnitude else minMag)
          in (arrowDataArray @
                [\<lparr>arrow_position = point, arrow_field = field, arrow_magnitude = magnitude\<rparr>],
              maxMag', minMag'))"

text \<open>The first pass over a list of grid points, and the record the memo returns.\<close>

definition sampleField :: "FieldSource list \<Rightarrow> FieldMode \<Rightarrow> position list \<Rightarrow> FieldData" where
  "sampleField sources mode gridPoints =
     (case foldl (sampleStep sources mode) ([], 0, None) gridPoints of
        (arrowDataArray, maxMag, minMag) \<Rightarrow>
          \<lparr>arrowData = arrowDataArray, maxMagnitude = maxMag,
           minMagnitude = (case minMag of None \<Rightarrow> maxMag | Some m \<Rightarrow> m)\<rparr>)"

definition fieldData :: "bool \<Rightarrow> FieldSource list \<Rightarrow> FieldMode \<Rightarrow> real \<Rightarrow> FieldData" where
  "fieldData enabled sources mode gridSize =
     (if \<not> enabled \<or> length sources = 0
      then \<lparr>arrowData = [], maxMagnitude = 0, minMagnitude = 0\<rparr>
      else sampleField sources mode (generateGridPoints gridSize))"


section \<open>JavaScript numbers with their range\<close>














section \<open>The field kernel over numbers with their range (physics/field.ts)\<close>


















section \<open>The unit vector of the specification\<close>

text \<open>
  The specification writes a contribution as \<open>magnitude * unit(a -> b)\<close>. The two
  definitions below follow these words: the vector from \<open>a\<close> to \<open>b\<close> divided by its
  length, with no clamp, and the product of a scalar and a vector.
\<close>

fun exactUnitVector :: "position \<Rightarrow> position \<Rightarrow> position" where
  "exactUnitVector (fx, fy, fz) (tx, ty, tz) =
     (let d = distance (fx, fy, fz) (tx, ty, tz)
      in ((tx - fx) / d, (ty - fy) / d, (tz - fz) / d))"

fun scaleVector :: "real \<Rightarrow> position \<Rightarrow> Vector3" where
  "scaleVector c (ux, uy, uz) = \<lparr>vx = c * ux, vy = c * uy, vz = c * uz\<rparr>"

section \<open>Definitions used in the proofs\<close>


text \<open>
  The \<open>x\<close> component of the electric contribution, at the point \<open>(a, 0, 0)\<close>, of a
  source of value \<open>v\<close> at \<open>(b, 0, 0)\<close> (scene units): the loop body of
  \<open>computeElectricFieldAtPoint\<close> with both positions on the \<open>x\<close> axis.
\<close>

definition axisContribution :: "real \<Rightarrow> real \<Rightarrow> real \<Rightarrow> real" where
  "axisContribution a b v =
     COULOMB_CONSTANT * v / (max (\<bar>b / 10 - a / 10\<bar>) (1 / 100) * max (\<bar>b / 10 - a / 10\<bar>) (1 / 100))
       * ((a / 10 - b / 10) / max (\<bar>a / 10 - b / 10\<bar>) (1 / 10))"

section \<open>Superposition\<close>

lemma electricStep_shift:
  "foldl (electricStep pm) (a, b, c) srcs =
     (case foldl (electricStep pm) (0, 0, 0) srcs of (ex, ey, ez) \<Rightarrow> (a + ex, b + ey, c + ez))"
proof (induction srcs arbitrary: a b c)
  case Nil
  show ?case by simp
next
  case (Cons s srcs)
  obtain a' b' c' where st: "electricStep pm (0, 0, 0) s = (a', b', c')"
    by (cases "electricStep pm (0, 0, 0) s") auto
  have st2: "electricStep pm (a, b, c) s = (a + a', b + b', c + c')"
    using st by (auto simp: electricStep_def Let_def split: prod.splits)
  show ?case
    unfolding foldl_Cons st st2
    by (subst Cons.IH, subst (2) Cons.IH) (auto split: prod.splits)
qed

lemma gravitationalStep_shift:
  "foldl (gravitationalStep pm) (a, b, c) srcs =
     (case foldl (gravitationalStep pm) (0, 0, 0) srcs of (ex, ey, ez) \<Rightarrow> (a + ex, b + ey, c + ez))"
proof (induction srcs arbitrary: a b c)
  case Nil
  show ?case by simp
next
  case (Cons s srcs)
  obtain a' b' c' where st: "gravitationalStep pm (0, 0, 0) s = (a', b', c')"
    by (cases "gravitationalStep pm (0, 0, 0) s") auto
  have st2: "gravitationalStep pm (a, b, c) s = (a + a', b + b', c + c')"
    using st by (auto simp: gravitationalStep_def Let_def split: prod.splits)
  show ?case
    unfolding foldl_Cons st st2
    by (subst Cons.IH, subst (2) Cons.IH) (auto split: prod.splits)
qed

text \<open>
  Claim C1. For every point and any two source lists \<open>A\<close> and \<open>B\<close>, in both field
  modes, the field of the concatenated list is the component-wise sum of the fields
  of the two lists (exactly, over real arithmetic).
\<close>

theorem superposition_additive:
  "computeElectricFieldAtPoint p (A @ B) =
     vadd (computeElectricFieldAtPoint p A) (computeElectricFieldAtPoint p B)
   \<and> computeGravitationalFieldAtPoint p (A @ B) =
     vadd (computeGravitationalFieldAtPoint p A) (computeGravitationalFieldAtPoint p B)"
proof
  obtain a b c where A: "foldl (electricStep (sceneToMeters p)) (0, 0, 0) A = (a, b, c)"
    by (cases "foldl (electricStep (sceneToMeters p)) (0, 0, 0) A") auto
  show "computeElectricFieldAtPoint p (A @ B) =
     vadd (computeElectricFieldAtPoint p A) (computeElectricFieldAtPoint p B)"
    unfolding computeElectricFieldAtPoint_def Let_def foldl_append A
    by (subst electricStep_shift) (auto simp: vadd_def split: prod.splits)
next
  obtain a b c where A: "foldl (gravitationalStep (sceneToMeters p)) (0, 0, 0) A = (a, b, c)"
    by (cases "foldl (gravitationalStep (sceneToMeters p)) (0, 0, 0) A") auto
  show "computeGravitationalFieldAtPoint p (A @ B) =
     vadd (computeGravitationalFieldAtPoint p A) (computeGravitationalFieldAtPoint p B)"
    unfolding computeGravitationalFieldAtPoint_def Let_def foldl_append A
    by (subst gravitationalStep_shift) (auto simp: vadd_def split: prod.splits)
qed

section \<open>Evaluation on the x axis\<close>

lemma distance_x_axis: "distance (a, 0, 0) (b, 0, 0) = \<bar>b - a\<bar>"
  by simp

lemma fieldMagnitude_x_axis: "fieldMagnitude \<lparr>vx = a, vy = 0, vz = 0\<rparr> = \<bar>a\<bar>"
  by (simp add: fieldMagnitude_def)

lemma electric_single_x_axis:
  "computeElectricFieldAtPoint (a, 0, 0)
     [\<lparr>source_id = i, source_position = (b, 0, 0), source_value = v\<rparr>] =
   \<lparr>vx = COULOMB_CONSTANT * v / (max (\<bar>b / 10 - a / 10\<bar>) (1 / 100) * max (\<bar>b / 10 - a / 10\<bar>) (1 / 100))
           * ((a / 10 - b / 10) / max (\<bar>a / 10 - b / 10\<bar>) (1 / 10)),
     vy = 0, vz = 0\<rparr>"
  by (simp add: computeElectricFieldAtPoint_def electricStep_def rMeters_def Let_def
      MIN_DISTANCE_def METERS_PER_SCENE_UNIT_def)

section \<open>Termination and assembly of traced lines\<close>

lemma traceLoop_length: "length (traceLoop n pos sources mode direction) \<le> n"
proof (induction n arbitrary: pos)
  case 0
  show ?case by simp
next
  case (Suc n)
  show ?case
  proof (cases pos)
    case (fields px py pz)
    show ?thesis
      using Suc.IH unfolding fields
      by (auto simp: Let_def intro: le_SucI)
  qed
qed

text \<open>
  Claim C6. For every start position, source list, mode and direction sign,
  \<open>traceInDirection\<close> (a total function: the loop runs on a counter bounded by
  \<open>MAX_STEPS_PER_DIRECTION\<close>) returns at most \<open>MAX_STEPS_PER_DIRECTION = 600\<close> positions,
  and every line assembled by \<open>traceFieldLine\<close> has at most
  \<open>2 * MAX_STEPS_PER_DIRECTION + 1\<close> points.
\<close>

theorem trace_bounded:
  "length (traceInDirection startPos sources mode direction) \<le> MAX_STEPS_PER_DIRECTION
   \<and> MAX_STEPS_PER_DIRECTION = 600
   \<and> length (traceFieldLine seed sources mode) \<le> 2 * MAX_STEPS_PER_DIRECTION + 1"
proof -
  have one: "length (traceInDirection q sources mode dir) \<le> MAX_STEPS_PER_DIRECTION" for q dir
    unfolding traceInDirection_def by (rule traceLoop_length)
  have two: "length (traceFieldLine seed sources mode) \<le> 2 * MAX_STEPS_PER_DIRECTION + 1"
    using one [of seed 1] one [of seed "- 1"]
    by (simp add: traceFieldLine_def Let_def)
  show ?thesis
    using one two by (simp add: MAX_STEPS_PER_DIRECTION_def)
qed

text \<open>A line that is kept: the trace from \<open>(1, 0, 0)\<close> away from a unit charge at the origin.\<close>

lemma normalize_x_axis:
  "1 / 10 ^ 10 \<le> E \<Longrightarrow> normalize \<lparr>vx = E, vy = 0, vz = 0\<rparr> = \<lparr>vx = 1, vy = 0, vz = 0\<rparr>"
  by (simp add: normalize_def Let_def)

lemma unit_charge_field_x_axis:
  assumes "15 / 100 \<le> x" "x \<le> 20"
  shows "\<exists>E. computeElectricFieldAtPoint (x, 0, 0)
            [\<lparr>source_id = i, source_position = (0, 0, 0), source_value = 1\<rparr>]
          = \<lparr>vx = E, vy = 0, vz = 0\<rparr> \<and> 1 \<le> E"
proof -
  define r where "r = max (x / 10) (1 / 100)"
  define u where "u = (x / 10) / max (x / 10) (1 / 10)"
  have r: "0 < r" "r \<le> 2" using assms by (simp_all add: r_def max_def)
  have "r * r \<le> 2 * 2" using r by (intro mult_mono) simp_all
  then have "COULOMB_CONSTANT / (2 * 2) \<le> COULOMB_CONSTANT / (r * r)"
    using r by (intro divide_left_mono) (simp_all add: COULOMB_CONSTANT_def)
  then have k: "10 ^ 9 \<le> COULOMB_CONSTANT / (r * r)"
    by (simp add: COULOMB_CONSTANT_def)
  have u: "15 / 100 \<le> u" using assms by (simp add: u_def max_def field_simps)
  have "10 ^ 9 * (15 / 100) \<le> COULOMB_CONSTANT / (r * r) * u"
    using k u by (intro mult_mono) simp_all
  then have E: "1 \<le> COULOMB_CONSTANT / (r * r) * u" by simp
  have "computeElectricFieldAtPoint (x, 0, 0)
            [\<lparr>source_id = i, source_position = (0, 0, 0), source_value = 1\<rparr>]
          = \<lparr>vx = COULOMB_CONSTANT / (r * r) * u, vy = 0, vz = 0\<rparr>"
    using assms by (simp add: electric_single_x_axis r_def u_def abs_if)
  then show ?thesis using E by blast
qed

lemma traceLoop_forward_step:
  assumes "15 / 100 \<le> x" "x \<le> 20"
  shows "traceLoop (Suc n) (x, 0, 0)
            [\<lparr>source_id = i, source_position = (0, 0, 0), source_value = 1\<rparr>] Electric 1
       = (x, 0, 0) # traceLoop n (x + 5 / 100, 0, 0)
            [\<lparr>source_id = i, source_position = (0, 0, 0), source_value = 1\<rparr>] Electric 1"
proof -
  obtain E where E: "computeElectricFieldAtPoint (x, 0, 0)
            [\<lparr>source_id = i, source_position = (0, 0, 0), source_value = 1\<rparr>]
          = \<lparr>vx = E, vy = 0, vz = 0\<rparr>" "1 \<le> E"
    using unit_charge_field_x_axis [OF assms] by blast
  have n: "normalize \<lparr>vx = E, vy = 0, vz = 0\<rparr> = \<lparr>vx = 1, vy = 0, vz = 0\<rparr>"
    by (rule normalize_x_axis) (use E(2) in simp)
  show ?thesis
    using assms E(2)
    by (simp add: E(1) n fieldMagnitude_x_axis distance_x_axis Let_def TRACE_BOUNDS_def
        MIN_DISTANCE_FROM_SOURCE_def MIN_FIELD_MAGNITUDE_def STEP_SIZE_def
        del: distance.simps)
qed

lemma traceLoop_forward_length:
  assumes "m \<le> n" "15 / 100 \<le> x" "x + (real m - 1) * (5 / 100) \<le> 20"
  shows "m \<le> length (traceLoop n (x, 0, 0)
            [\<lparr>source_id = i, source_position = (0, 0, 0), source_value = 1\<rparr>] Electric 1)"
  using assms
proof (induction n arbitrary: m x)
  case 0
  then show ?case by simp
next
  case (Suc n)
  show ?case
  proof (cases m)
    case 0
    then show ?thesis by simp
  next
    case (Suc m')
    have x: "x \<le> 20" using Suc.prems(3) by (simp add: \<open>m = Suc m'\<close>)
    have p1: "m' \<le> n" using Suc.prems(1) by (simp add: \<open>m = Suc m'\<close>)
    have p2: "15 / 100 \<le> x + 5 / 100" using Suc.prems(2) by simp
    have "x + real m' * (5 / 100) \<le> 20"
      using Suc.prems(3) by (simp add: \<open>m = Suc m'\<close>)
    then have p3: "x + 5 / 100 + (real m' - 1) * (5 / 100) \<le> 20"
      by (simp add: diff_divide_distrib)
    have "m' \<le> length (traceLoop n (x + 5 / 100, 0, 0)
            [\<lparr>source_id = i, source_position = (0, 0, 0), source_value = 1\<rparr>] Electric 1)"
      by (rule Suc.IH [OF p1 p2 p3])
    then show ?thesis
      by (simp add: traceLoop_forward_step [OF Suc.prems(2) x] \<open>m = Suc m'\<close>
          del: traceLoop.simps)
  qed
qed

lemma unit_charge_line_kept:
  "20 \<le> length (traceFieldLine (1, 0, 0)
      [\<lparr>source_id = i, source_position = (0, 0, 0), source_value = 1\<rparr>] Electric)"
proof -
  have "19 \<le> length (traceInDirection (1, 0, 0)
      [\<lparr>source_id = i, source_position = (0, 0, 0), source_value = 1\<rparr>] Electric 1)"
    unfolding traceInDirection_def
    by (rule traceLoop_forward_length) (simp_all add: MAX_STEPS_PER_DIRECTION_def)
  then show ?thesis
    by (simp add: traceFieldLine_def Let_def distance_x_axis MIN_DISTANCE_FROM_SOURCE_def
        del: distance.simps)
qed

lemma keepLines_filter:
  "keepLines seeds sources mode =
     filter (\<lambda>points. 20 \<le> length points) (map (\<lambda>seed. traceFieldLine seed sources mode) seeds)"
  by (induction seeds) (simp_all add: Let_def)

text \<open>
  Claim C7. \<open>traceFieldLine\<close> returns the empty list when the seed is within the
  exclusion radius of some source, and otherwise the reversed backward trace, the
  seed, and the forward trace, in this order. The pipeline that collects the lines
  keeps exactly the traced lines of at least 20 points, so every shorter line is
  discarded.
\<close>

theorem traceFieldLine_assembly:
  "traceFieldLine seed sources mode =
     (if (\<exists>source \<in> set sources.
            distance seed (source_position source) < MIN_DISTANCE_FROM_SOURCE)
      then []
      else rev (traceInDirection seed sources mode (- 1)) @ [seed]
             @ traceInDirection seed sources mode 1)
   \<and> fieldLines enabled sources mode seeds =
       (if enabled \<and> sources \<noteq> []
        then filter (\<lambda>points. 20 \<le> length points)
               (map (\<lambda>seed. traceFieldLine seed sources mode) seeds)
        else [])"
proof -
  have close: "isTooCloseToSource q srcs =
      (\<exists>source \<in> set srcs. distance q (source_position source) < MIN_DISTANCE_FROM_SOURCE)"
    for q srcs
    by (induction srcs) (auto simp: Let_def)
  have a: "traceFieldLine seed sources mode =
     (if (\<exists>source \<in> set sources.
            distance seed (source_position source) < MIN_DISTANCE_FROM_SOURCE)
      then []
      else rev (traceInDirection seed sources mode (- 1)) @ [seed]
             @ traceInDirection seed sources mode 1)"
    by (simp add: traceFieldLine_def Let_def close)
  have b: "fieldLines enabled sources mode seeds =
       (if enabled \<and> sources \<noteq> []
        then filter (\<lambda>points. 20 \<le> length points)
               (map (\<lambda>seed. traceFieldLine seed sources mode) seeds)
        else [])"
    by (simp add: fieldLines_def keepLines_filter)
  show ?thesis using a b by blast
qed

text \<open>
  The theorem at a unit charge at the origin and the seeds \<open>(0, 0, 0)\<close> and
  \<open>(1, 0, 0)\<close>: the line of the first seed, which lies on the source, is empty and is
  dropped; the line of the second has at least 20 points and is kept.
\<close>

theorem traceFieldLine_assembly_witness:
  "traceFieldLine (0, 0, 0) [\<lparr>source_id = ''a'', source_position = (0, 0, 0), source_value = 1\<rparr>]
       Electric = []
   \<and> 20 \<le> length (traceFieldLine (1, 0, 0)
       [\<lparr>source_id = ''a'', source_position = (0, 0, 0), source_value = 1\<rparr>] Electric)
   \<and> fieldLines True [\<lparr>source_id = ''a'', source_position = (0, 0, 0), source_value = 1\<rparr>]
       Electric [(0, 0, 0), (1, 0, 0)]
     = [traceFieldLine (1, 0, 0)
         [\<lparr>source_id = ''a'', source_position = (0, 0, 0), source_value = 1\<rparr>] Electric]"
proof -
  define s where "s = \<lparr>source_id = ''a'', source_position = (0, 0, 0), source_value = (1::real)\<rparr>"
  have empty: "traceFieldLine (0, 0, 0) [s] Electric = []"
    using traceFieldLine_assembly [of "(0, 0, 0)" "[s]" Electric]
    by (simp add: s_def MIN_DISTANCE_FROM_SOURCE_def)
  have kept: "20 \<le> length (traceFieldLine (1, 0, 0) [s] Electric)"
    unfolding s_def by (rule unit_charge_line_kept)
  have "fieldLines True [s] Electric [(0, 0, 0), (1, 0, 0)] =
      filter (\<lambda>points. 20 \<le> length points)
        (map (\<lambda>seed. traceFieldLine seed [s] Electric) [(0, 0, 0), (1, 0, 0)])"
    using traceFieldLine_assembly [of _ "[s]" Electric True "[(0, 0, 0), (1, 0, 0)]"]
    by simp
  then have lines: "fieldLines True [s] Electric [(0, 0, 0), (1, 0, 0)]
      = [traceFieldLine (1, 0, 0) [s] Electric]"
    using empty kept by simp
  show ?thesis
    using empty kept lines unfolding s_def by blast
qed

section \<open>Lattice generation and thinning\<close>

lemma floor_half_neg: "\<not> v \<le> g \<Longrightarrow> \<lfloor>(g - v) / 2\<rfloor> + 1 \<le> (0::int)" for v g :: real
proof -
  assume "\<not> v \<le> g"
  then have "(g - v) / 2 < 0" by simp
  then have "\<lfloor>(g - v) / 2\<rfloor> < 0" by (simp only: floor_less_zero)
  then show ?thesis by linarith
qed

lemma ceil_div_nat:
  fixes N n :: nat
  assumes N: "0 < N"
  shows "(n + N) div N = (n + N - 1) div N + (if n mod N = 0 then 1 else 0)"
proof -
  define q r where "q = n div N" and "r = n mod N"
  have n: "n = N * q + r" unfolding q_def r_def by (rule mult_div_mod_eq [symmetric])
  have r: "r < N" using N by (simp add: r_def)
  have one: "(n + N) div N = q + 1"
    by (rule div_nat_eqI) (use n r in \<open>simp_all add: algebra_simps\<close>)
  show ?thesis
  proof (cases "r = 0")
    case True
    have "(n + N - 1) div N = q"
      by (rule div_nat_eqI) (use n r N True in \<open>simp_all add: algebra_simps\<close>)
    then show ?thesis using one True by (simp add: r_def)
  next
    case False
    have "(n + N - 1) div N = q + 1"
      by (rule div_nat_eqI) (use n r N False in \<open>simp_all add: algebra_simps\<close>)
    then show ?thesis using one False by (simp add: r_def)
  qed
qed

lemma length_filter_mod:
  "0 < N \<Longrightarrow> length (filter (\<lambda>i. i mod N = 0) [0..<n]) = (n + N - 1) div N"
proof (induction n)
  case 0
  then show ?case by simp
next
  case (Suc n)
  have "Suc n + N - 1 = n + N" by simp
  then show ?case using Suc ceil_div_nat [OF Suc.prems, of n] by simp
qed

lemma gridAxis_eq:
  "gridAxis v g = map (\<lambda>k. v + 2 * real k) [0..<nat (\<lfloor>(g - v) / 2\<rfloor> + 1)]"
proof (induction v g rule: gridAxis.induct)
  case (1 v g)
  show ?case
  proof (cases "v \<le> g")
    case False
    then have "\<lfloor>(g - v) / 2\<rfloor> + 1 \<le> 0"
      by (rule floor_half_neg)
    then show ?thesis using False by (subst gridAxis.simps) simp
  next
    case True
    define n where "n = nat \<lfloor>(g - v) / 2\<rfloor>"
    have fl: "0 \<le> \<lfloor>(g - v) / 2\<rfloor>" using True by simp
    have a: "nat (\<lfloor>(g - v) / 2\<rfloor> + 1) = Suc n"
      using fl by (simp add: n_def nat_add_distrib)
    have e: "(g - (v + GRID_STEP)) / 2 = (g - v) / 2 - 1"
      by (simp add: GRID_STEP_def field_simps)
    have "\<lfloor>(g - (v + GRID_STEP)) / 2\<rfloor> + 1 = \<lfloor>(g - v) / 2\<rfloor>"
      unfolding e by simp
    then have b: "nat (\<lfloor>(g - (v + GRID_STEP)) / 2\<rfloor> + 1) = n"
      by (simp only: n_def)
    have "gridAxis v g = v # gridAxis (v + GRID_STEP) g"
      using True by (subst gridAxis.simps) simp
    also have "\<dots> = v # map (\<lambda>k. v + GRID_STEP + 2 * real k) [0..<n]"
      using "1.IH" [OF True] b by simp
    also have "\<dots> = map (\<lambda>k. v + 2 * real k) [0..<Suc n]"
      by (simp add: upt_conv_Cons map_Suc_upt [symmetric] GRID_STEP_def algebra_simps del: upt_Suc)
    finally show ?thesis using a by simp
  qed
qed

lemma gridAxis_symmetric:
  "gridAxis (- g) g = map (\<lambda>k. - g + 2 * real k) [0..<nat (\<lfloor>g\<rfloor> + 1)]"
  by (simp add: gridAxis_eq [of "- g" g])

lemma ceil_div_exact:
  fixes N n :: nat
  assumes "0 < N" "n mod N = 0"
  shows "(n + N - 1) div N * N = n"
proof -
  obtain k where k: "n = N * k" using assms(2) by auto
  have "(n + N - 1) div N = k"
    by (rule div_nat_eqI) (use k assms(1) in \<open>simp_all add: algebra_simps\<close>)
  then show ?thesis using k by simp
qed

lemma filter_mod_multiples:
  fixes N :: nat
  assumes N: "0 < N"
  shows "filter (\<lambda>i. i mod N = 0) [0..<n] = map (\<lambda>j. j * N) [0..<(n + N - 1) div N]"
proof (induction n)
  case 0
  show ?case using N by simp
next
  case (Suc n)
  have s: "Suc n + N - 1 = n + N" by simp
  show ?case
  proof (cases "n mod N = 0")
    case True
    have "(n + N) div N = Suc ((n + N - 1) div N)"
      using ceil_div_nat [OF N, of n] True by simp
    then show ?thesis
      using Suc True ceil_div_exact [OF N True] by (simp add: s)
  next
    case False
    have "(n + N) div N = (n + N - 1) div N"
      using ceil_div_nat [OF N, of n] False by simp
    then show ?thesis
      using Suc False by (simp add: s)
  qed
qed

lemma filterByIndex_nth:
  "filterByIndex N xs = map (\<lambda>i. xs ! i) (filter (\<lambda>i. i mod N = 0) [0..<length xs])"
proof -
  have z: "zip [0..<length xs] xs = map (\<lambda>i. (i, xs ! i)) [0..<length xs]" 
    by (intro nth_equalityI) auto
  show ?thesis
    unfolding filterByIndex_def enumerate_eq_zip
    by (simp add: z filter_map comp_def)
qed

lemma filterByIndex_every_Nth:
  "0 < N \<Longrightarrow>
   filterByIndex N xs = map (\<lambda>j. xs ! (j * N)) [0..<(length xs + N - 1) div N]"
  by (simp add: filterByIndex_nth filter_mod_multiples comp_def)

lemma thinned_count_le:
  fixes count cap :: nat
  assumes "0 < cap" "cap < count"
  defines "N \<equiv> nat \<lceil>real count / real cap\<rceil>"
  shows "0 < N \<and> (count + N - 1) div N \<le> cap"
proof -
  have pos: "0 < real count / real cap" using assms by simp
  then have "0 < \<lceil>real count / real cap\<rceil>" by simp
  then have N0: "0 < N" by (simp add: N_def)
  have "real count / real cap \<le> real_of_int \<lceil>real count / real cap\<rceil>" by simp
  also have "\<dots> = real N" using N0 by (simp add: N_def)
  finally have "real count \<le> real N * real cap"
    using assms(1) by (simp add: field_simps)
  then have le: "count \<le> N * cap"
    by (metis of_nat_le_iff of_nat_mult)
  have "count + N - 1 < (cap + 1) * N"
    using le N0 by (simp add: algebra_simps)
  then have "(count + N - 1) div N < cap + 1"
    using N0 by (simp add: div_less_iff_less_mult)
  then show ?thesis using N0 by simp
qed

lemma length_concat_const:
  "(\<And>x. x \<in> set xs \<Longrightarrow> length (f x) = c) \<Longrightarrow> length (concat (map f xs)) = length xs * c"
  by (induction xs) (simp_all add: length_concat)

lemma latticePoints_length:
  "length (latticePoints g) = (length (gridAxis (- g) g)) ^ 3"
  unfolding latticePoints_def
  by (simp add: length_concat_const power3_eq_cube)

text \<open>
  Claim C8. For every non-negative \<open>gridSize\<close>, \<open>generateGridPoints\<close> enumerates the
  lattice of the points \<open>(x, y, z)\<close> with \<open>x\<close>, \<open>y\<close>, \<open>z\<close> running over
  \<open>- gridSize, - gridSize + 2, \<dots>\<close> up to \<open>gridSize\<close> (\<open>\<lfloor>gridSize\<rfloor> + 1\<close> values on each
  axis, \<open>z\<close> varying fastest); when the lattice has more than \<open>MAX_ARROWS = 500\<close> points
  the result is every \<open>N\<close>-th lattice point, from the first on, with
  \<open>N = \<lceil>count / MAX_ARROWS\<rceil>\<close>; the result never has more than 500 points. The
  result is a function of \<open>gridSize\<close> alone.
\<close>

theorem generateGridPoints_thinned:
  fixes gridSize :: real
  defines "axis \<equiv> map (\<lambda>k. - gridSize + 2 * real k) [0..<nat (\<lfloor>gridSize\<rfloor> + 1)]"
  defines "lattice \<equiv> concat (map (\<lambda>x. concat (map (\<lambda>y. map (\<lambda>z. (x, y, z)) axis) axis)) axis)"
  defines "N \<equiv> nat \<lceil>real (length lattice) / real MAX_ARROWS\<rceil>"
  assumes nonneg: "0 \<le> gridSize"
  shows "length lattice = (nat \<lfloor>gridSize\<rfloor> + 1) ^ 3
       \<and> generateGridPoints gridSize =
           (if length lattice > MAX_ARROWS
            then map (\<lambda>j. lattice ! (j * N)) [0..<(length lattice + N - 1) div N]
            else lattice)
       \<and> length (generateGridPoints gridSize) \<le> MAX_ARROWS
       \<and> MAX_ARROWS = 500"
proof -
  have ax: "gridAxis (- gridSize) gridSize = axis"
    by (simp add: gridAxis_symmetric axis_def)
  have lat: "latticePoints gridSize = lattice"
    by (simp add: latticePoints_def lattice_def ax)
  have len: "length lattice = (nat \<lfloor>gridSize\<rfloor> + 1) ^ 3"
    using latticePoints_length [of gridSize] nonneg
    by (simp add: lat ax axis_def nat_add_distrib)
  show ?thesis
  proof (cases "length lattice > MAX_ARROWS")
    case False
    then show ?thesis
      using len by (simp add: generateGridPoints_def lat Let_def MAX_ARROWS_def)
  next
    case True
    have th: "0 < N \<and> (length lattice + N - 1) div N \<le> MAX_ARROWS"
      unfolding N_def
      by (rule thinned_count_le) (use True in \<open>simp_all add: MAX_ARROWS_def\<close>)
    have g: "generateGridPoints gridSize =
        map (\<lambda>j. lattice ! (j * N)) [0..<(length lattice + N - 1) div N]"
      using True th
      by (simp add: generateGridPoints_def lat Let_def N_def [symmetric] filterByIndex_every_Nth)
    show ?thesis
      using True th len by (simp add: g) (simp add: MAX_ARROWS_def)
  qed
qed

text \<open>
  The theorem at \<open>gridSize = 8\<close> (the default of the component): the lattice has
  \<open>9 ^ 3 = 729\<close> points, every second one is kept, 365 points are returned. At
  \<open>gridSize = 1\<close> the eight lattice points are returned as they are.
\<close>

theorem generateGridPoints_thinned_witness:
  "(0::real) \<le> 8 \<and> length (generateGridPoints 8) = 365
   \<and> generateGridPoints 1 =
       [(- 1, - 1, - 1), (- 1, - 1, 1), (- 1, 1, - 1), (- 1, 1, 1),
        (1, - 1, - 1), (1, - 1, 1), (1, 1, - 1), (1, 1, 1)]"
proof -
  have big: "length (generateGridPoints 8) = 365"
    using generateGridPoints_thinned [of 8] by (simp add: MAX_ARROWS_def)
  have small: "generateGridPoints 1 =
       [(- 1, - 1, - 1), (- 1, - 1, 1), (- 1, 1, - 1), (- 1, 1, 1),
        (1, - 1, - 1), (1, - 1, 1), (1, 1, - 1), (1, 1, 1)]"
    using generateGridPoints_thinned [of 1] by (simp add: MAX_ARROWS_def upt_conv_Cons)
  have nonneg: "(0::real) \<le> 8"
    by simp
  show ?thesis
    by (intro conjI nonneg big small)
qed

section \<open>Seeds on the sphere shell\<close>

lemma isTooCloseToSource_iff:
  "isTooCloseToSource q srcs =
     (\<exists>source \<in> set srcs. distance q (source_position source) < MIN_DISTANCE_FROM_SOURCE)"
  by (induction srcs) (auto simp: Let_def)

lemma seed_y_range:
  fixes n i :: nat
  assumes "2 \<le> n" "i < n"
  defines "y \<equiv> 1 - (real i / (real n - 1)) * 2"
  shows "0 \<le> 1 - y * y"
proof -
  define q where "q = real i / (real n - 1)"
  have d: "0 < real n - 1" using assms(1) by simp
  have "real i \<le> real n - 1" using assms(2) by linarith
  then have q1: "q \<le> 1" using d by (simp add: q_def field_simps)
  have q0: "0 \<le> q" using d by (simp add: q_def)
  have "1 - y * y = 4 * (q * (1 - q))"
    by (simp add: y_def q_def [symmetric] algebra_simps)
  moreover have "0 \<le> q * (1 - q)"
    using q0 q1 by (intro mult_nonneg_nonneg) simp_all
  ultimately show ?thesis by simp
qed

lemma on_unit_sphere:
  fixes y t :: real
  assumes "0 \<le> 1 - y * y"
  shows "distance (0, 0, 0) (cos t * sqrt (1 - y * y) * R, y * R, sin t * sqrt (1 - y * y) * R) = \<bar>R\<bar>"
proof -
  define r where "r = sqrt (1 - y * y)"
  have rr: "r * r = 1 - y * y" using assms by (simp add: r_def)
  have cs: "cos t * cos t + sin t * sin t = 1" by (rule sin_cos_squared_add3)
  have factor: "(c * r * R) * (c * r * R) + (y * R) * (y * R) + (s * r * R) * (s * r * R)
      = (R * R) * ((r * r) * (c * c + s * s) + y * y)" for c s :: real
    by (simp add: algebra_simps)
  have "(cos t * r * R) * (cos t * r * R) + (y * R) * (y * R) + (sin t * r * R) * (sin t * r * R)
      = (R * R) * ((r * r) * (cos t * cos t + sin t * sin t) + y * y)"
    by (rule factor)
  also have "\<dots> = R * R" unfolding cs rr by simp
  finally show ?thesis
    by (simp add: Let_def r_def [symmetric])
qed

lemma seedPoint_Some:
  assumes "2 \<le> n" "i < n"
  shows "\<exists>p. seedPoint n i = Some p \<and> distance (0, 0, 0) p = SEED_SPHERE_RADIUS"
proof -
  have d: "real n - 1 \<noteq> 0" using assms(1) by simp
  have y: "0 \<le> 1 - (1 - (real i / (real n - 1)) * 2) * (1 - (real i / (real n - 1)) * 2)"
    using seed_y_range [OF assms] .
  have R: "\<bar>SEED_SPHERE_RADIUS\<bar> = SEED_SPHERE_RADIUS" by (simp add: SEED_SPHERE_RADIUS_def)
  show ?thesis
    using d y on_unit_sphere [OF y, of "goldenAngle * real i" SEED_SPHERE_RADIUS]
    by (simp add: seedPoint_def Let_def R not_less del: distance.simps)
qed

lemma seedsOfIteration_ok:
  assumes "2 \<le> n" "i < n"
  shows "length (seedsOfIteration sources n i) \<le> 1
       \<and> (\<forall>s \<in> set (seedsOfIteration sources n i).
            \<exists>p. s = Some p \<and> distance (0, 0, 0) p = SEED_SPHERE_RADIUS
              \<and> (\<forall>source \<in> set sources.
                    MIN_DISTANCE_FROM_SOURCE \<le> distance p (source_position source)))"
proof -
  obtain p where p: "seedPoint n i = Some p" "distance (0, 0, 0) p = SEED_SPHERE_RADIUS"
    using seedPoint_Some [OF assms] by blast
  show ?thesis
    by (simp add: seedsOfIteration_def p isTooCloseToSource_iff not_less
          del: distance.simps split_paired_Ex split_paired_All)
qed

lemma length_concat_le:
  "(\<And>x. x \<in> set xs \<Longrightarrow> length (f x) \<le> 1) \<Longrightarrow> length (concat (map f xs)) \<le> length xs"
proof (induction xs)
  case Nil
  show ?case by simp
next
  case (Cons x xs)
  have "length (f x) \<le> 1" using Cons.prems by simp
  moreover have "length (concat (map f xs)) \<le> length xs" using Cons by simp
  ultimately show ?case by simp
qed

text \<open>
  Claim C10. For every source list and every seed count \<open>n \<ge> 2\<close>,
  \<open>generateSphereShellSeeds\<close> returns at most \<open>n\<close> seeds, each of them a position with
  finite coordinates that lies on the sphere of radius \<open>SEED_SPHERE_RADIUS = 6\<close>
  around the origin, at distance at least \<open>MIN_DISTANCE_FROM_SOURCE = 0.15\<close> from
  every source. For \<open>n = 1\<close> the generator divides zero by \<open>n - 1 = 0\<close>: the one seed
  it returns has no finite coordinates.
\<close>

theorem generateSphereShellSeeds_on_shell:
  "(2 \<le> n \<longrightarrow>
      length (generateSphereShellSeeds sources n) \<le> n
      \<and> (\<forall>s \<in> set (generateSphereShellSeeds sources n).
            \<exists>p. s = Some p \<and> distance (0, 0, 0) p = SEED_SPHERE_RADIUS
              \<and> (\<forall>source \<in> set sources.
                    MIN_DISTANCE_FROM_SOURCE \<le> distance p (source_position source))))
   \<and> SEED_SPHERE_RADIUS = 6 \<and> MIN_DISTANCE_FROM_SOURCE = 15 / 100
   \<and> generateSphereShellSeeds sources 1 = [None]"
proof (intro conjI impI)
  assume n: "2 \<le> n"
  have "length (generateSphereShellSeeds sources n) \<le> length [0..<n]"
    unfolding generateSphereShellSeeds_def
    by (rule length_concat_le) (use seedsOfIteration_ok [OF n] in simp)
  then show "length (generateSphereShellSeeds sources n) \<le> n" by simp
  show "\<forall>s \<in> set (generateSphereShellSeeds sources n).
            \<exists>p. s = Some p \<and> distance (0, 0, 0) p = SEED_SPHERE_RADIUS
              \<and> (\<forall>source \<in> set sources.
                    MIN_DISTANCE_FROM_SOURCE \<le> distance p (source_position source))"
    unfolding generateSphereShellSeeds_def
    using seedsOfIteration_ok [OF n, of _ sources] by (auto simp del: distance.simps)
next
  show "generateSphereShellSeeds sources 1 = [None]"
    by (simp add: generateSphereShellSeeds_def seedsOfIteration_def seedPoint_def)
qed (simp_all add: SEED_SPHERE_RADIUS_def MIN_DISTANCE_FROM_SOURCE_def)

lemma sqrt_144: "sqrt 144 = 12"
  by (rule real_sqrt_unique) simp_all

text \<open>
  The theorem at \<open>n = 2\<close> with one source at the north pole of the shell: the seed
  at the north pole is dropped, the seed at the south pole is returned.
\<close>

theorem generateSphereShellSeeds_on_shell_witness:
  "(2::nat) \<le> 2
   \<and> generateSphereShellSeeds
         [\<lparr>source_id = ''a'', source_position = (0, 6, 0), source_value = 1\<rparr>] 2
       = [Some (0, - 6, 0)]
   \<and> distance (0, 0, 0) (0, - 6, 0) = SEED_SPHERE_RADIUS
   \<and> MIN_DISTANCE_FROM_SOURCE \<le> distance (0, - 6, 0) (0, 6, 0)"
proof -
  have ev: "generateSphereShellSeeds
         [\<lparr>source_id = ''a'', source_position = (0, 6, 0), source_value = 1\<rparr>] 2
       = [Some (0, - 6, 0)]"
    by (simp add: generateSphereShellSeeds_def seedsOfIteration_def seedPoint_def
        upt_conv_Cons SEED_SPHERE_RADIUS_def MIN_DISTANCE_FROM_SOURCE_def sqrt_144)
  have "\<forall>s \<in> set (generateSphereShellSeeds
         [\<lparr>source_id = ''a'', source_position = (0, 6, 0), source_value = 1\<rparr>] 2).
            \<exists>p. s = Some p \<and> distance (0, 0, 0) p = SEED_SPHERE_RADIUS
              \<and> (\<forall>source \<in> set [\<lparr>source_id = ''a'', source_position = (0, 6, 0), source_value = 1\<rparr>].
                    MIN_DISTANCE_FROM_SOURCE \<le> distance p (source_position source))"
    using generateSphereShellSeeds_on_shell [of 2
        "[\<lparr>source_id = ''a'', source_position = (0, 6, 0), source_value = 1\<rparr>]"]
    by blast
  then have "distance (0, 0, 0) (0, - 6, 0) = SEED_SPHERE_RADIUS
   \<and> MIN_DISTANCE_FROM_SOURCE \<le> distance (0, - 6, 0) (0, 6, 0)"
    unfolding ev by (simp del: distance.simps)
  then show ?thesis using ev by (simp del: distance.simps)
qed

section \<open>Log-scale normalisation\<close>




text \<open>With the component enabled and a source present, the memo is the first pass over the lattice.\<close>

lemma fieldData_sampleField:
  "enabled \<Longrightarrow> sources \<noteq> [] \<Longrightarrow>
   fieldData enabled sources mode gridSize = sampleField sources mode (generateGridPoints gridSize)"
  by (simp add: fieldData_def)








section \<open>Results of the equilibrium solver\<close>

lemma sgn_product_pos: "(sgn a * sgn b > 0) = (a * b > 0)" for a b :: real
  by (simp add: sgn_mult [symmetric])

lemma closedFormEquilibrium_None:
  "closedFormEquilibrium q1 q2 = None \<longleftrightarrow>
     distance (sceneToMeters (source_position q1)) (sceneToMeters (source_position q2))
       < MIN_DISTANCE * METERS_PER_SCENE_UNIT
     \<or> (\<not> source_value q1 * source_value q2 > 0 \<and> \<bar>source_value q1\<bar> = \<bar>source_value q2\<bar>)"
proof -
  obtain ux uy uz where u: "unitVector (sceneToMeters (source_position q1))
      (sceneToMeters (source_position q2)) = (ux, uy, uz)"
    by (cases "unitVector (sceneToMeters (source_position q1)) (sceneToMeters (source_position q2))") auto
  obtain p1x p1y p1z where p1: "sceneToMeters (source_position q1) = (p1x, p1y, p1z)"
    by (cases "sceneToMeters (source_position q1)") auto
  obtain p2x p2y p2z where p2: "sceneToMeters (source_position q2) = (p2x, p2y, p2z)"
    by (cases "sceneToMeters (source_position q2)") auto
  have like: "sqrt \<bar>source_value q1\<bar> + sqrt \<bar>source_value q2\<bar> \<noteq> 0"
    if "source_value q1 * source_value q2 > 0"
  proof -
    have "source_value q1 \<noteq> 0" using that by auto
    then have "0 < sqrt \<bar>source_value q1\<bar>" by simp
    moreover have "0 \<le> sqrt \<bar>source_value q2\<bar>" by simp
    ultimately show ?thesis by linarith
  qed
  show ?thesis
    unfolding closedFormEquilibrium_def Let_def sgn_product_pos
    using like u[unfolded p1 p2]
    by (auto simp: p1 p2 simp del: distance.simps unitVector.simps)
qed

text \<open>
  Claim C3, as amended. \<open>findEquilibriumPoint\<close> is a total function (it raises no
  exception). It returns \<open>None\<close> when there are not exactly two sources or the mode is
  not electric. For two sources in electric mode it returns \<open>None\<close> exactly when the
  distance between the sources (in metres) is below
  \<open>MIN_DISTANCE * METERS_PER_SCENE_UNIT\<close>, or the values have opposite signs and equal
  magnitudes, or both values are zero; in every other case it returns a position.
\<close>

theorem findEquilibriumPoint_none_iff:
  "(length sources \<noteq> 2 \<or> mode \<noteq> Electric \<longrightarrow> findEquilibriumPoint sources mode = None)
   \<and> (findEquilibriumPoint [q1, q2] Electric = None \<longleftrightarrow>
        distance (sceneToMeters (source_position q1)) (sceneToMeters (source_position q2))
          < MIN_DISTANCE * METERS_PER_SCENE_UNIT
        \<or> (source_value q1 * source_value q2 < 0 \<and> \<bar>source_value q1\<bar> = \<bar>source_value q2\<bar>)
        \<or> (source_value q1 = 0 \<and> source_value q2 = 0))"
proof
  show "length sources \<noteq> 2 \<or> mode \<noteq> Electric \<longrightarrow> findEquilibriumPoint sources mode = None"
    by (simp add: findEquilibriumPoint_def)
next
  have vals: "(\<not> source_value q1 * source_value q2 > 0 \<and> \<bar>source_value q1\<bar> = \<bar>source_value q2\<bar>)
      \<longleftrightarrow> (source_value q1 * source_value q2 < 0 \<and> \<bar>source_value q1\<bar> = \<bar>source_value q2\<bar>)
        \<or> (source_value q1 = 0 \<and> source_value q2 = 0)"
    by (auto simp: not_less le_less)
  have "findEquilibriumPoint [q1, q2] Electric = None \<longleftrightarrow> closedFormEquilibrium q1 q2 = None"
    by (cases "closedFormEquilibrium q1 q2")
       (auto simp: findEquilibriumPoint_def intro: prod_cases3)
  then show "findEquilibriumPoint [q1, q2] Electric = None \<longleftrightarrow>
        distance (sceneToMeters (source_position q1)) (sceneToMeters (source_position q2))
          < MIN_DISTANCE * METERS_PER_SCENE_UNIT
        \<or> (source_value q1 * source_value q2 < 0 \<and> \<bar>source_value q1\<bar> = \<bar>source_value q2\<bar>)
        \<or> (source_value q1 = 0 \<and> source_value q2 = 0)"
    unfolding closedFormEquilibrium_None vals by simp
qed

text \<open>
  The theorem at: one source; two sources in gravity mode; charges 1 and 4 three
  scene units apart (a position is returned); charges 1 and -1; and charges 1 and 4
  at a distance of 0.05 scene units, below the floor.
\<close>

theorem findEquilibriumPoint_none_iff_witness:
  "findEquilibriumPoint
     [\<lparr>source_id = ''a'', source_position = (0, 0, 0), source_value = 1\<rparr>] Electric = None
   \<and> findEquilibriumPoint
     [\<lparr>source_id = ''a'', source_position = (0, 0, 0), source_value = 1\<rparr>,
      \<lparr>source_id = ''b'', source_position = (3, 0, 0), source_value = 4\<rparr>] Gravity = None
   \<and> findEquilibriumPoint
     [\<lparr>source_id = ''a'', source_position = (0, 0, 0), source_value = 1\<rparr>,
      \<lparr>source_id = ''b'', source_position = (3, 0, 0), source_value = 4\<rparr>] Electric \<noteq> None
   \<and> findEquilibriumPoint
     [\<lparr>source_id = ''a'', source_position = (0, 0, 0), source_value = 1\<rparr>,
      \<lparr>source_id = ''b'', source_position = (3, 0, 0), source_value = - 1\<rparr>] Electric = None
   \<and> findEquilibriumPoint
     [\<lparr>source_id = ''a'', source_position = (0, 0, 0), source_value = 1\<rparr>,
      \<lparr>source_id = ''b'', source_position = (1 / 20, 0, 0), source_value = 4\<rparr>] Electric = None"
proof -
  define a where "a = \<lparr>source_id = ''a'', source_position = (0, 0, 0), source_value = (1::real)\<rparr>"
  define b where "b = \<lparr>source_id = ''b'', source_position = (3, 0, 0), source_value = (4::real)\<rparr>"
  define c where "c = \<lparr>source_id = ''b'', source_position = (3, 0, 0), source_value = (- 1::real)\<rparr>"
  define e where "e = \<lparr>source_id = ''b'', source_position = (1 / 20, 0, 0), source_value = (4::real)\<rparr>"
  have 1: "findEquilibriumPoint [a] Electric = None"
    using findEquilibriumPoint_none_iff [of "[a]" Electric] by simp
  have 2: "findEquilibriumPoint [a, b] Gravity = None"
    using findEquilibriumPoint_none_iff [of "[a, b]" Gravity] by simp
  have 3: "findEquilibriumPoint [a, b] Electric \<noteq> None"
    using findEquilibriumPoint_none_iff [of _ _ a b]
    by (simp add: a_def b_def distance_x_axis MIN_DISTANCE_def METERS_PER_SCENE_UNIT_def
        del: distance.simps)
  have 4: "findEquilibriumPoint [a, c] Electric = None"
    using findEquilibriumPoint_none_iff [of _ _ a c]
    by (simp add: a_def c_def distance_x_axis MIN_DISTANCE_def METERS_PER_SCENE_UNIT_def
        del: distance.simps)
  have 5: "findEquilibriumPoint [a, e] Electric = None"
    using findEquilibriumPoint_none_iff [of _ _ a e]
    by (simp add: a_def e_def distance_x_axis MIN_DISTANCE_def METERS_PER_SCENE_UNIT_def
        del: distance.simps)
  show ?thesis
    using 1 2 3 4 5 unfolding a_def b_def c_def e_def by blast
qed

text \<open>
  The claim as stated fails at two sources of value zero, one scene unit apart, in
  electric mode: the pair is not opposite-signed and not too close, and the result
  is \<open>None\<close>.
\<close>

theorem findEquilibriumPoint_zero_values_counterexample:
  "findEquilibriumPoint
     [\<lparr>source_id = ''a'', source_position = (0, 0, 0), source_value = 0\<rparr>,
      \<lparr>source_id = ''b'', source_position = (1, 0, 0), source_value = 0\<rparr>] Electric = None
   \<and> length [\<lparr>source_id = ''a'', source_position = (0, 0, 0), source_value = 0 :: real\<rparr>,
      \<lparr>source_id = ''b'', source_position = (1, 0, 0), source_value = 0\<rparr>] = 2
   \<and> \<not> distance (sceneToMeters (0, 0, 0)) (sceneToMeters (1, 0, 0))
         < MIN_DISTANCE * METERS_PER_SCENE_UNIT
   \<and> \<not> (source_value \<lparr>source_id = ''a'', source_position = (0, 0, 0), source_value = 0 :: real\<rparr>
           * source_value \<lparr>source_id = ''b'', source_position = (1, 0, 0), source_value = 0 :: real\<rparr>
         < 0)"
  by (simp add: findEquilibriumPoint_def closedFormEquilibrium_def distance_x_axis
      MIN_DISTANCE_def METERS_PER_SCENE_UNIT_def del: distance.simps)

section \<open>The field of a single source\<close>

lemma distance_nonneg: "0 \<le> distance a b"
  by (cases a, cases b) (simp add: Let_def)

lemma distance_zero_iff: "distance a b = 0 \<longleftrightarrow> a = b"
proof (cases a, cases b)
  fix x1 y1 z1 x2 y2 z2
  assume a: "a = (x1, y1, z1)" and b: "b = (x2, y2, z2)"
  have "(x2 - x1) * (x2 - x1) + (y2 - y1) * (y2 - y1) + (z2 - z1) * (z2 - z1) = 0
      \<longleftrightarrow> x2 - x1 = 0 \<and> y2 - y1 = 0 \<and> z2 - z1 = 0"
    by (simp add: sum_squares_eq_zero_iff add_nonneg_eq_0_iff)
  then show ?thesis
    by (auto simp: a b Let_def)
qed

lemma distance_sceneToMeters:
  "distance (sceneToMeters a) (sceneToMeters b) = METERS_PER_SCENE_UNIT * distance a b"
proof (cases a, cases b)
  fix x1 y1 z1 x2 y2 z2
  assume a: "a = (x1, y1, z1)" and b: "b = (x2, y2, z2)"
  have "(x2 / 10 - x1 / 10) * (x2 / 10 - x1 / 10) + (y2 / 10 - y1 / 10) * (y2 / 10 - y1 / 10)
        + (z2 / 10 - z1 / 10) * (z2 / 10 - z1 / 10)
      = (1 / 10)\<^sup>2 * ((x2 - x1) * (x2 - x1) + (y2 - y1) * (y2 - y1) + (z2 - z1) * (z2 - z1))"
    by (simp add: power2_eq_square algebra_simps)
  then show ?thesis
    by (simp add: a b Let_def METERS_PER_SCENE_UNIT_def real_sqrt_mult)
qed

lemma distance_commute: "distance a b = distance b a"
proof (cases a, cases b)
  fix x1 y1 z1 x2 y2 z2
  assume a: "a = (x1, y1, z1)" and b: "b = (x2, y2, z2)"
  have "(x2 - x1) * (x2 - x1) = (x1 - x2) * (x1 - x2)"
       "(y2 - y1) * (y2 - y1) = (y1 - y2) * (y1 - y2)"
       "(z2 - z1) * (z2 - z1) = (z1 - z2) * (z1 - z2)"
    by (simp_all add: algebra_simps)
  then show ?thesis by (simp add: a b Let_def)
qed

text \<open>The field of one source: magnitude times the clamped unit vector.\<close>

lemma electric_single:
  "computeElectricFieldAtPoint p [s] =
     scaleVector (electricMagnitude p s)
       (unitVector (sceneToMeters (source_position s)) (sceneToMeters p))"
  by (cases "unitVector (sceneToMeters (source_position s)) (sceneToMeters p)")
     (simp add: computeElectricFieldAtPoint_def electricStep_def electricMagnitude_def Let_def
        del: unitVector.simps)

lemma gravitational_single:
  "computeGravitationalFieldAtPoint p [s] =
     scaleVector (gravitationalMagnitude p s)
       (unitVector (sceneToMeters p) (sceneToMeters (source_position s)))"
  by (cases "unitVector (sceneToMeters p) (sceneToMeters (source_position s))")
     (simp add: computeGravitationalFieldAtPoint_def gravitationalStep_def
        gravitationalMagnitude_def Let_def del: unitVector.simps)

text \<open>The clamped unit vector is the exact one, shortened by \<open>d / max d MIN_DISTANCE\<close>.\<close>

lemma unitVector_exact:
  assumes "a \<noteq> b"
  defines "d \<equiv> distance (sceneToMeters a) (sceneToMeters b)"
  shows "scaleVector m (unitVector (sceneToMeters a) (sceneToMeters b)) =
         scaleVector (m * (d / max d MIN_DISTANCE)) (exactUnitVector a b)"
proof (cases a, cases b)
  fix x1 y1 z1 x2 y2 z2
  assume a: "a = (x1, y1, z1)" and b: "b = (x2, y2, z2)"
  define D where "D = distance a b"
  have D0: "0 < D"
    using assms(1) distance_nonneg [of a b] distance_zero_iff [of a b] by (simp add: D_def less_le)
  have d: "d = D / 10"
    by (simp add: d_def D_def distance_sceneToMeters METERS_PER_SCENE_UNIT_def)
  define R where "R = max d MIN_DISTANCE"
  have R0: "0 < R" by (simp add: R_def MIN_DISTANCE_def max_def)
  have comp: "m * ((t / 10 - f / 10) / R) = m * (d / R) * ((t - f) / D)" for t f :: real
    using D0 R0 by (simp add: d field_simps)
  have u: "unitVector (sceneToMeters a) (sceneToMeters b)
      = ((x2 / 10 - x1 / 10) / R, (y2 / 10 - y1 / 10) / R, (z2 / 10 - z1 / 10) / R)"
    using d_def R_def
    by (simp add: a b Let_def METERS_PER_SCENE_UNIT_def del: distance.simps)
  have e: "exactUnitVector a b = ((x2 - x1) / D, (y2 - y1) / D, (z2 - z1) / D)"
    by (simp add: a b D_def Let_def del: distance.simps)
  show ?thesis
    unfolding u e R_def [symmetric] by (simp only: scaleVector.simps comp)
qed

section \<open>Direction of a contribution\<close>

text \<open>
  For a single source and a query point other than its position, the electric
  contribution is \<open>magnitude * c\<close> times the unit vector from the source to the point,
  and the gravitational contribution \<open>magnitude * c\<close> times the unit vector from the
  point to the source, for a factor \<open>c\<close> with \<open>0 < c \<le> 1\<close>; the magnitude has the sign
  of the value. So each contribution is directed as the code's comments say. The
  factor is 1 where \<open>unitVector\<close> does not clamp.
\<close>

lemma contribution_scaled_unit:
  assumes ne: "p \<noteq> source_position s"
  shows "(\<exists>c. 0 < c \<and> c \<le> 1
      \<and> computeElectricFieldAtPoint p [s] =
          scaleVector (electricMagnitude p s * c) (exactUnitVector (source_position s) p)
      \<and> computeGravitationalFieldAtPoint p [s] =
          scaleVector (gravitationalMagnitude p s * c) (exactUnitVector p (source_position s))
      \<and> (MIN_DISTANCE \<le> distance (sceneToMeters (source_position s)) (sceneToMeters p)
           \<longrightarrow> c = 1))
    \<and> (0 < source_value s \<longrightarrow> 0 < electricMagnitude p s \<and> 0 < gravitationalMagnitude p s)
    \<and> (source_value s < 0 \<longrightarrow> electricMagnitude p s < 0)"
proof -
  define d where "d = distance (sceneToMeters (source_position s)) (sceneToMeters p)"
  define c where "c = d / max d MIN_DISTANCE"
  have d0: "0 < d"
    using ne distance_nonneg [of "source_position s" p] distance_zero_iff [of "source_position s" p]
    by (simp add: d_def distance_sceneToMeters METERS_PER_SCENE_UNIT_def less_le)
  have c: "0 < c" "c \<le> 1"
    using d0 by (simp_all add: c_def MIN_DISTANCE_def max_def)
  have c1: "c = 1" if "MIN_DISTANCE \<le> d"
    using that d0 by (simp add: c_def max_def)
  have d': "distance (sceneToMeters p) (sceneToMeters (source_position s)) = d"
    unfolding d_def by (rule distance_commute)
  have E: "computeElectricFieldAtPoint p [s] =
        scaleVector (electricMagnitude p s * c) (exactUnitVector (source_position s) p)"
    unfolding electric_single c_def d_def
    by (rule unitVector_exact) (use ne in simp)
  have G: "computeGravitationalFieldAtPoint p [s] =
        scaleVector (gravitationalMagnitude p s * c) (exactUnitVector p (source_position s))"
    unfolding gravitational_single c_def d' [symmetric]
    by (rule unitVector_exact) (rule ne)
  have r: "0 < rMeters (sceneToMeters p) (sceneToMeters (source_position s))"
    by (simp add: rMeters_def MIN_DISTANCE_def METERS_PER_SCENE_UNIT_def max_def)
  have pos: "0 < electricMagnitude p s \<and> 0 < gravitationalMagnitude p s" if "0 < source_value s"
    using that r
    by (simp add: electricMagnitude_def gravitationalMagnitude_def Let_def
        COULOMB_CONSTANT_def GRAVITATIONAL_CONSTANT_def)
  have neg: "electricMagnitude p s < 0" if "source_value s < 0"
    using that r
    by (simp add: electricMagnitude_def Let_def COULOMB_CONSTANT_def divide_neg_pos
        mult_pos_neg)
  have ex: "\<exists>c. 0 < c \<and> c \<le> 1
      \<and> computeElectricFieldAtPoint p [s] =
          scaleVector (electricMagnitude p s * c) (exactUnitVector (source_position s) p)
      \<and> computeGravitationalFieldAtPoint p [s] =
          scaleVector (gravitationalMagnitude p s * c) (exactUnitVector p (source_position s))
      \<and> (MIN_DISTANCE \<le> distance (sceneToMeters (source_position s)) (sceneToMeters p)
           \<longrightarrow> c = 1)"
    using c E G c1 unfolding d_def [symmetric] by blast
  show ?thesis
    using ex pos neg by blast
qed


text \<open>
  Claim C5, at an input where the code departs from it. Half a scene unit from a
  unit charge the distance is 0.05 m, above the floor of 0.01 m, so the magnitude is
  not clamped: it is \<open>k / 0.05\<^sup>2 = 3.596e12\<close>. The unit vector from the source to the
  point is \<open>(1, 0, 0)\<close>, but \<open>unitVector\<close> returns \<open>(0.5, 0, 0)\<close>, and the computed
  field is \<open>1.798e12\<close>, half of magnitude times unit vector.
\<close>

theorem contribution_half_unit_from_source:
  "(1 / 2, 0, 0) \<noteq> source_position \<lparr>source_id = ''a'', source_position = (0, 0, 0), source_value = 1\<rparr>
   \<and> rMeters (sceneToMeters (1 / 2, 0, 0)) (sceneToMeters (0, 0, 0)) = 1 / 20
   \<and> MIN_DISTANCE * METERS_PER_SCENE_UNIT = 1 / 100
   \<and> unitVector (sceneToMeters (0, 0, 0)) (sceneToMeters (1 / 2, 0, 0)) = (1 / 2, 0, 0)
   \<and> exactUnitVector (0, 0, 0) (1 / 2, 0, 0) = (1, 0, 0)
   \<and> electricMagnitude (1 / 2, 0, 0)
        \<lparr>source_id = ''a'', source_position = (0, 0, 0), source_value = 1\<rparr> = 3596 * 10 ^ 9
   \<and> computeElectricFieldAtPoint (1 / 2, 0, 0)
        [\<lparr>source_id = ''a'', source_position = (0, 0, 0), source_value = 1\<rparr>]
      = \<lparr>vx = 1798 * 10 ^ 9, vy = 0, vz = 0\<rparr>
   \<and> scaleVector
        (electricMagnitude (1 / 2, 0, 0)
           \<lparr>source_id = ''a'', source_position = (0, 0, 0), source_value = 1\<rparr>)
        (exactUnitVector (0, 0, 0) (1 / 2, 0, 0))
      = \<lparr>vx = 3596 * 10 ^ 9, vy = 0, vz = 0\<rparr>
   \<and> computeElectricFieldAtPoint (1 / 2, 0, 0)
        [\<lparr>source_id = ''a'', source_position = (0, 0, 0), source_value = 1\<rparr>]
      \<noteq> scaleVector
        (electricMagnitude (1 / 2, 0, 0)
           \<lparr>source_id = ''a'', source_position = (0, 0, 0), source_value = 1\<rparr>)
        (exactUnitVector (0, 0, 0) (1 / 2, 0, 0))"
proof -
  have r: "rMeters (sceneToMeters (1 / 2, 0, 0)) (sceneToMeters (0, 0, 0)) = 1 / 20"
    by (simp add: rMeters_def MIN_DISTANCE_def METERS_PER_SCENE_UNIT_def distance_x_axis
        del: distance.simps)
  have fl: "MIN_DISTANCE * METERS_PER_SCENE_UNIT = 1 / 100"
    by (simp add: MIN_DISTANCE_def METERS_PER_SCENE_UNIT_def)
  have cu: "unitVector (sceneToMeters (0, 0, 0)) (sceneToMeters (1 / 2, 0, 0)) = (1 / 2, 0, 0)"
    by (simp add: MIN_DISTANCE_def METERS_PER_SCENE_UNIT_def distance_x_axis Let_def
        del: distance.simps)
  have E: "computeElectricFieldAtPoint (1 / 2, 0, 0)
        [\<lparr>source_id = ''a'', source_position = (0, 0, 0), source_value = 1\<rparr>]
      = \<lparr>vx = 1798 * 10 ^ 9, vy = 0, vz = 0\<rparr>"
    by (simp add: electric_single_x_axis COULOMB_CONSTANT_def)
  have em: "electricMagnitude (1 / 2, 0, 0)
        \<lparr>source_id = ''a'', source_position = (0, 0, 0), source_value = 1\<rparr> = 3596 * 10 ^ 9"
    by (simp add: electricMagnitude_def rMeters_def Let_def MIN_DISTANCE_def
        METERS_PER_SCENE_UNIT_def COULOMB_CONSTANT_def distance_x_axis del: distance.simps)
  have u: "exactUnitVector (0, 0, 0) (1 / 2, 0, 0) = (1, 0, 0)"
    by (simp add: distance_x_axis del: distance.simps)
  have sv: "scaleVector
        (electricMagnitude (1 / 2, 0, 0)
           \<lparr>source_id = ''a'', source_position = (0, 0, 0), source_value = 1\<rparr>)
        (exactUnitVector (0, 0, 0) (1 / 2, 0, 0))
      = \<lparr>vx = 3596 * 10 ^ 9, vy = 0, vz = 0\<rparr>"
    unfolding em u by simp
  have ne: "computeElectricFieldAtPoint (1 / 2, 0, 0)
        [\<lparr>source_id = ''a'', source_position = (0, 0, 0), source_value = 1\<rparr>]
      \<noteq> scaleVector
        (electricMagnitude (1 / 2, 0, 0)
           \<lparr>source_id = ''a'', source_position = (0, 0, 0), source_value = 1\<rparr>)
        (exactUnitVector (0, 0, 0) (1 / 2, 0, 0))"
    unfolding E sv by simp
  have p: "(1 / 2, 0, 0) \<noteq> source_position
      \<lparr>source_id = ''a'', source_position = (0, 0, 0), source_value = (1::real)\<rparr>"
    by simp
  show ?thesis
    by (intro conjI p r fl cu u em E sv ne)
qed

section \<open>Results within the range of doubles\<close>





























section \<open>Boundedness under the clamp\<close>










section \<open>The equilibrium of two equal charges\<close>

lemma electric_pair_x_axis:
  "computeElectricFieldAtPoint (a, 0, 0)
     [\<lparr>source_id = i1, source_position = (b1, 0, 0), source_value = v1\<rparr>,
      \<lparr>source_id = i2, source_position = (b2, 0, 0), source_value = v2\<rparr>] =
   \<lparr>vx = axisContribution a b1 v1 + axisContribution a b2 v2, vy = 0, vz = 0\<rparr>"
  by (simp add: computeElectricFieldAtPoint_def electricStep_def rMeters_def Let_def
      MIN_DISTANCE_def METERS_PER_SCENE_UNIT_def axisContribution_def mult_ac)

lemma refineLoop_x_axis_step:
  assumes "computeElectricFieldAtPoint (x, 0, 0) sources = \<lparr>vx = E, vy = 0, vz = 0\<rparr>"
  shows "refineLoop (Suc n) (x, 0, 0) sources =
     (if \<bar>E\<bar> < TOLERANCE then (x, 0, 0) else refineLoop n (x - E / 10 ^ 5, 0, 0) sources)"
proof (cases "\<bar>E\<bar> < TOLERANCE")
  case True
  then show ?thesis by (simp add: assms fieldMagnitude_x_axis Let_def)
next
  case False
  then have E0: "E \<noteq> 0" "\<bar>E\<bar> \<noteq> 0" by (auto simp: TOLERANCE_def)
  have small: "\<not> \<bar>E\<bar> < 1 / 10 ^ 20"
    using False by (simp add: TOLERANCE_def)
  have step: "x + - E / \<bar>E\<bar> * (\<bar>E\<bar> * (1 / 10 ^ 6)) / METERS_PER_SCENE_UNIT = x - E / 10 ^ 5"
    using E0 by (simp add: METERS_PER_SCENE_UNIT_def field_simps)
  show ?thesis
    using False small
    using E0 by (simp add: assms fieldMagnitude_x_axis Let_def METERS_PER_SCENE_UNIT_def)
qed

text \<open>
  For comparison: when the two equal charges are at least one scene unit apart, the
  direction vector of \<open>unitVector\<close> has length one, the closed form is the midpoint,
  the field there is zero, and the refinement returns the origin at once.
\<close>

lemma symmetric_pair_one_unit_apart:
  fixes d Q :: real and i1 i2 :: string
  assumes d: "1 \<le> d" and Q: "Q \<noteq> 0"
  defines "S \<equiv> [\<lparr>source_id = i1, source_position = (- (d / 2), 0, 0), source_value = Q\<rparr>,
                 \<lparr>source_id = i2, source_position = (d / 2, 0, 0), source_value = Q\<rparr>]"
  shows "findEquilibriumPoint S Electric = Some (0, 0, 0)"
    and "computeElectricFieldAtPoint (0, 0, 0) S = \<lparr>vx = 0, vy = 0, vz = 0\<rparr>"
proof -
  have like: "sgn Q * sgn Q > 0"
    using Q by (simp add: sgn_mult [symmetric])
  have s: "sqrt \<bar>Q\<bar> \<noteq> 0" using Q by simp
  have half: "sqrt \<bar>Q\<bar> / (sqrt \<bar>Q\<bar> + sqrt \<bar>Q\<bar>) = 1 / 2"
    using s by (simp add: field_simps)
  have closed: "closedFormEquilibrium
      \<lparr>source_id = i1, source_position = (- (d / 2), 0, 0), source_value = Q\<rparr>
      \<lparr>source_id = i2, source_position = (d / 2, 0, 0), source_value = Q\<rparr> = Some (0, 0, 0)"
    using d like s
    by (simp add: closedFormEquilibrium_def Let_def distance_x_axis MIN_DISTANCE_def
        METERS_PER_SCENE_UNIT_def half max_def del: distance.simps)
  have "axisContribution 0 (- (d / 2)) Q + axisContribution 0 (d / 2) Q = 0"
    by (simp add: axisContribution_def)
  then show field: "computeElectricFieldAtPoint (0, 0, 0) S = \<lparr>vx = 0, vy = 0, vz = 0\<rparr>"
    unfolding S_def electric_pair_x_axis by simp
  have "refineLoop (Suc 9) (0, 0, 0) S = (0, 0, 0)"
    by (subst refineLoop_x_axis_step [OF field]) (simp add: TOLERANCE_def)
  then show "findEquilibriumPoint S Electric = Some (0, 0, 0)"
    using closed
    by (simp add: findEquilibriumPoint_def S_def MAX_ITERATIONS_def
        METERS_PER_SCENE_UNIT_def del: refineLoop.simps)
qed

lemma axisContribution_far:
  assumes "x \<le> - (10 ^ 4)" "\<bar>b\<bar> \<le> 1"
  shows "\<bar>axisContribution x b 1\<bar> \<le> 5 * 10 ^ 4"
proof -
  define r where "r = max (\<bar>b / 10 - x / 10\<bar>) (1 / 100)"
  define u where "u = (x / 10 - b / 10) / max (\<bar>x / 10 - b / 10\<bar>) (1 / 10)"
  have "- 1 \<le> b" using assms(2) by (simp add: abs_le_iff)
  then have "999 \<le> b / 10 - x / 10" using assms(1) by simp
  then have "999 \<le> \<bar>b / 10 - x / 10\<bar>" by linarith
  then have r: "999 \<le> r" by (simp add: r_def)
  have rr: "999 * 999 \<le> r * r" using mult_mono [of 999 r 999 r] r by simp
  have u: "\<bar>u\<bar> \<le> 1"
    by (simp add: u_def abs_divide max_def)
  have k: "\<bar>COULOMB_CONSTANT * 1 / (r * r)\<bar> \<le> 5 * 10 ^ 4"
  proof -
    have "COULOMB_CONSTANT / (r * r) \<le> COULOMB_CONSTANT / (999 * 999)"
      using rr by (intro divide_left_mono) (simp_all add: COULOMB_CONSTANT_def)
    also have "\<dots> \<le> 5 * 10 ^ 4" by (simp add: COULOMB_CONSTANT_def)
    finally show ?thesis using rr by (simp add: COULOMB_CONSTANT_def)
  qed
  have "\<bar>axisContribution x b 1\<bar> = \<bar>COULOMB_CONSTANT * 1 / (r * r)\<bar> * \<bar>u\<bar>"
    by (simp add: axisContribution_def r_def u_def abs_mult)
  also have "\<dots> \<le> (5 * 10 ^ 4) * 1"
    using k u by (intro mult_mono) simp_all
  finally show ?thesis by simp
qed

lemma refineLoop_far:
  fixes x :: real
  defines "S \<equiv> [\<lparr>source_id = ''q1'', source_position = (- (1 / 4), 0, 0), source_value = 1\<rparr>,
                 \<lparr>source_id = ''q2'', source_position = (1 / 4, 0, 0), source_value = 1\<rparr>]"
  assumes "x \<le> - (10 ^ 4) - real n"
  shows "\<exists>x'. refineLoop n (x, 0, 0) S = (x', 0, 0) \<and> x' \<le> x + real n"
  using assms(2)
proof (induction n arbitrary: x)
  case 0
  then show ?case by simp
next
  case (Suc n)
  define E where "E = axisContribution x (- (1 / 4)) 1 + axisContribution x (1 / 4) 1"
  have x: "x \<le> - (10 ^ 4)" using Suc.prems by simp
  have "\<bar>E\<bar> \<le> \<bar>axisContribution x (- (1 / 4)) 1\<bar> + \<bar>axisContribution x (1 / 4) 1\<bar>"
    unfolding E_def by (rule abs_triangle_ineq)
  also have "\<dots> \<le> 5 * 10 ^ 4 + 5 * 10 ^ 4"
    by (intro add_mono axisContribution_far x) simp_all
  finally have E: "\<bar>E\<bar> \<le> 10 ^ 5" by simp
  have field: "computeElectricFieldAtPoint (x, 0, 0) S = \<lparr>vx = E, vy = 0, vz = 0\<rparr>"
    unfolding S_def E_def by (rule electric_pair_x_axis)
  show ?case
  proof (cases "\<bar>E\<bar> < TOLERANCE")
    case True
    then show ?thesis
      by (simp add: refineLoop_x_axis_step [OF field] del: refineLoop.simps)
  next
    case False
    have step: "\<bar>E / 10 ^ 5\<bar> \<le> 1" using E by simp
    then have "x - E / 10 ^ 5 \<le> - (10 ^ 4) - real n"
      using Suc.prems by (simp add: abs_le_iff)
    from Suc.IH [OF this] obtain x' where
      x': "refineLoop n (x - E / 10 ^ 5, 0, 0) S = (x', 0, 0)" "x' \<le> x - E / 10 ^ 5 + real n"
      by blast
    have "x' \<le> x + real (Suc n)" using x'(2) step by (simp add: abs_le_iff)
    then show ?thesis
      using False x'(1) by (simp add: refineLoop_x_axis_step [OF field] del: refineLoop.simps)
  qed
qed

text \<open>
  Claim C4, at an input where the code departs from it. Two charges of value 1 at
  \<open>(-0.25, 0, 0)\<close> and \<open>(0.25, 0, 0)\<close> are 0.5 scene units apart, above the floor of
  0.1. The closed form puts the estimate at \<open>-0.0125\<close> m, that is \<open>-0.125\<close> scene units:
  at distance \<open>0.125\<close> from the first source, and not at \<open>r1 = 0.25\<close>. From there the
  refinement ends at a point of the \<open>x\<close> axis beyond \<open>-10\<^sup>7\<close>, and not near the origin.
\<close>

theorem symmetric_pair_below_one_unit:
  "closedFormEquilibrium
      \<lparr>source_id = ''q1'', source_position = (- (1 / 4), 0, 0), source_value = 1\<rparr>
      \<lparr>source_id = ''q2'', source_position = (1 / 4, 0, 0), source_value = 1\<rparr>
     = Some (- (1 / 80), 0, 0)
   \<and> (\<exists>x. findEquilibriumPoint
        [\<lparr>source_id = ''q1'', source_position = (- (1 / 4), 0, 0), source_value = 1\<rparr>,
         \<lparr>source_id = ''q2'', source_position = (1 / 4, 0, 0), source_value = 1\<rparr>] Electric
       = Some (x, 0, 0) \<and> x < - (10 ^ 7))"
proof -
  define S where "S = [\<lparr>source_id = ''q1'', source_position = (- (1 / 4), 0, 0), source_value = 1 :: real\<rparr>,
                 \<lparr>source_id = ''q2'', source_position = (1 / 4, 0, 0), source_value = 1\<rparr>]"
  have closed: "closedFormEquilibrium
      \<lparr>source_id = ''q1'', source_position = (- (1 / 4), 0, 0), source_value = 1\<rparr>
      \<lparr>source_id = ''q2'', source_position = (1 / 4, 0, 0), source_value = 1\<rparr>
     = Some (- (1 / 80), 0, 0)"
    by (simp add: closedFormEquilibrium_def Let_def distance_x_axis MIN_DISTANCE_def
        METERS_PER_SCENE_UNIT_def del: distance.simps)
  have field0: "computeElectricFieldAtPoint (- (1 / 8), 0, 0) S
      = \<lparr>vx = 899 * 10 ^ 7 * 1600 / 3, vy = 0, vz = 0\<rparr>"
    unfolding S_def electric_pair_x_axis
    by (simp add: axisContribution_def COULOMB_CONSTANT_def)
  have first: "refineLoop (Suc 9) (- (1 / 8), 0, 0) S
      = refineLoop 9 (- (1 / 8) - 899 * 10 ^ 7 * 1600 / 3 / 10 ^ 5, 0, 0) S"
    by (subst refineLoop_x_axis_step [OF field0]) (simp add: TOLERANCE_def)
  have start: "- (1 / 8) - 899 * 10 ^ 7 * 1600 / 3 / 10 ^ 5 \<le> - (10 ^ 4) - real (9 :: nat)"
    by simp
  obtain x' where x': "refineLoop 9 (- (1 / 8) - 899 * 10 ^ 7 * 1600 / 3 / 10 ^ 5, 0, 0) S = (x', 0, 0)"
      "x' \<le> - (1 / 8) - 899 * 10 ^ 7 * 1600 / 3 / 10 ^ 5 + real (9 :: nat)"
    using refineLoop_far [OF start] unfolding S_def by blast
  have far: "x' < - (10 ^ 7)" using x'(2) by simp
  have ten: "MAX_ITERATIONS = Suc 9" by (simp add: MAX_ITERATIONS_def)
  have "findEquilibriumPoint S Electric = Some (x', 0, 0)"
    unfolding findEquilibriumPoint_def S_def
    using closed first x'(1)
    by (simp add: ten METERS_PER_SCENE_UNIT_def S_def del: refineLoop.simps)
  then show ?thesis
    using closed far unfolding S_def by blast
qed

text \<open>In particular the position returned is not the origin.\<close>

theorem symmetric_pair_below_one_unit_witness:
  "findEquilibriumPoint
        [\<lparr>source_id = ''q1'', source_position = (- (1 / 4), 0, 0), source_value = 1\<rparr>,
         \<lparr>source_id = ''q2'', source_position = (1 / 4, 0, 0), source_value = 1\<rparr>] Electric
     \<noteq> Some (0, 0, 0)
   \<and> findEquilibriumPoint
        [\<lparr>source_id = ''q1'', source_position = (- (1 / 4), 0, 0), source_value = 1\<rparr>,
         \<lparr>source_id = ''q2'', source_position = (1 / 4, 0, 0), source_value = 1\<rparr>] Electric
     \<noteq> None"
  using symmetric_pair_below_one_unit by auto

end
